theory Spec2Isabelle
  imports Complex_Main "HOL-Library.Monad_Syntax"
begin

section \<open>FormFit: the per-frame pose pipeline of \<open>src/components/CameraView.tsx\<close>\<close>

text \<open>
  Conventions of the embedding.

  \<^item> A JavaScript \<open>number\<close> is a \<^typ>\<open>real\<close>: arithmetic is exact, there is no rounding,
    no NaN and no infinity. Timestamps (\<open>Date.now()\<close>) are \<^typ>\<open>int\<close> milliseconds.
  \<^item> A value that may be \<open>undefined\<close> or \<open>null\<close> is an \<open>option\<close>.
  \<^item> A computation that may throw is an \<open>option\<close> too, \<open>None\<close> being the thrown
    \<open>TypeError\<close> (a property read on \<open>undefined\<close>, the only exception the modelled code
    can raise by itself). A bind \<open>lm \<leftarrow> jsnth landmarks i\<close> stands at the place where the
    source first reads a property of \<open>landmarks[i]\<close>.
  \<^item> Canvas calls are recorded as a list of painted shapes; their pixel geometry
    (translate, rotate, scale) is not modelled.
\<close>

subsection \<open>Data\<close>

text \<open>\<open>NormalizedLandmark\<close>: the fields \<open>x\<close>, \<open>y\<close>, \<open>z\<close> and the optional \<open>visibility\<close>.\<close>

record landmark =
  lm_x :: real
  lm_y :: real
  lm_z :: real
  lm_visibility :: "real option"

text \<open>\<open>enum WorkoutType\<close>.\<close>

datatype WorkoutType = SQUAT | PUSHUP | PLANK | LUNGE | BICEP_CURL | TRICEP_EXTENSION

text \<open>The keys of \<open>ANATOMY_PATHS\<close>.\<close>

datatype partKey = delt | upperArm | forearm | thigh | calf | torso | digit

fun TARGET_SEGMENTS :: "WorkoutType \<Rightarrow> partKey list" where
  "TARGET_SEGMENTS SQUAT = [thigh, calf, torso]"
| "TARGET_SEGMENTS PUSHUP = [upperArm, torso]"
| "TARGET_SEGMENTS LUNGE = [thigh, calf]"
| "TARGET_SEGMENTS BICEP_CURL = [upperArm]"
| "TARGET_SEGMENTS TRICEP_EXTENSION = [upperArm]"
| "TARGET_SEGMENTS PLANK = [torso, upperArm, thigh]"

datatype quality = GOOD | POOR | LOST

text \<open>\<open>xs[i]\<close> of JavaScript: \<open>undefined\<close> out of range.\<close>

definition jsnth :: "'a list \<Rightarrow> nat \<Rightarrow> 'a option" where
  "jsnth xs i = (if i < length xs then Some (xs ! i) else None)"

text \<open>\<open>lm.visibility ?? 0\<close>.\<close>

definition vis :: "landmark \<Rightarrow> real" where
  "vis lm = (case lm_visibility lm of None \<Rightarrow> 0 | Some v \<Rightarrow> v)"

subsection \<open>Geometry utilities\<close>

definition lerp :: "real \<Rightarrow> real \<Rightarrow> real \<Rightarrow> real" where
  "lerp start stop factor = start + (stop - start) * factor"

text \<open>\<open>Math.hypot\<close> and \<open>Math.atan2\<close> on two arguments (signed zeros apart).\<close>

definition hypot :: "real \<Rightarrow> real \<Rightarrow> real" where
  "hypot a b = sqrt (a\<^sup>2 + b\<^sup>2)"

definition atan2 :: "real \<Rightarrow> real \<Rightarrow> real" where
  "atan2 b a =
     (if 0 < a then arctan (b / a)
      else if a < 0 then (if 0 \<le> b then arctan (b / a) + pi else arctan (b / a) - pi)
      else if 0 < b then pi / 2
      else if b < 0 then - (pi / 2)
      else 0)"

definition calculateAngle :: "landmark \<Rightarrow> landmark \<Rightarrow> landmark \<Rightarrow> real" where
  "calculateAngle a b c =
     (let radians = atan2 (lm_y c - lm_y b) (lm_x c - lm_x b)
                    - atan2 (lm_y a - lm_y b) (lm_x a - lm_x b);
          angle = \<bar>radians * 180 / pi\<bar>
      in if angle > 180 then 360 - angle else angle)"

subsection \<open>Landmark smoother (\<open>adaptiveSmoothLandmarks\<close>)\<close>

definition minAlpha :: real where "minAlpha = 0.08"
definition maxAlpha :: real where "maxAlpha = 0.92"
definition lowerThreshold :: real where "lowerThreshold = 0.0005"
definition upperThreshold :: real where "upperThreshold = 0.025"

text \<open>The blend factor computed inside the \<open>map\<close> callback from \<open>metric\<close>.\<close>

definition blendAlpha :: "real \<Rightarrow> real" where
  "blendAlpha metric =
     (if metric > lowerThreshold then
        (let t = min 1 ((metric - lowerThreshold) / (upperThreshold - lowerThreshold));
             curve = 1 - (1 - t) ^ 3
         in minAlpha + (maxAlpha - minAlpha) * curve)
      else minAlpha)"

text \<open>
  The formula as the specification words it, with a two-sided clamp and no case
  distinction on \<open>metric\<close>; compared with \<^const>\<open>blendAlpha\<close> below.
\<close>

definition clamp :: "real \<Rightarrow> real \<Rightarrow> real \<Rightarrow> real" where
  "clamp v lo hi = max lo (min hi v)"

definition spec_blend :: "real \<Rightarrow> real" where
  "spec_blend metric =
     (let t = clamp ((metric - 0.0005) / (0.025 - 0.0005)) 0 1
      in 0.08 + (0.92 - 0.08) * (1 - (1 - t) ^ 3))"

text \<open>One step of the \<open>coreIndices.forEach\<close> loop, on the pair (total, count).\<close>

definition coreIndices :: "nat list" where
  "coreIndices = [11, 12, 23, 24]"

definition coreStep :: "landmark list \<Rightarrow> landmark list \<Rightarrow> nat \<Rightarrow> real \<times> nat \<Rightarrow> real \<times> nat" where
  "coreStep current prev idx acc =
     (case (jsnth current idx, jsnth prev idx) of
        (Some c, Some p) \<Rightarrow>
          (fst acc + hypot (lm_x c - lm_x p) (lm_y c - lm_y p), snd acc + 1)
      | _ \<Rightarrow> acc)"

definition globalVelocity :: "landmark list \<Rightarrow> landmark list \<Rightarrow> real" where
  "globalVelocity current prev =
     (let acc = fold (coreStep current prev) coreIndices (0, 0)
      in if snd acc > 0 then fst acc / real (snd acc) else 0)"

text \<open>The \<open>map\<close> callback; \<open>pu\<close> is \<open>prev[i]\<close>, whose \<open>x\<close> is read first.\<close>

definition smoothLandmark :: "real \<Rightarrow> landmark \<Rightarrow> landmark option \<Rightarrow> landmark option" where
  "smoothLandmark gv cur pu = do {
     p \<leftarrow> pu;
     let localVelocity = hypot (lm_x cur - lm_x p) (lm_y cur - lm_y p);
     let metric = max localVelocity (gv * 0.6);
     let alpha = blendAlpha metric;
     Some \<lparr> lm_x = lerp (lm_x p) (lm_x cur) alpha,
            lm_y = lerp (lm_y p) (lm_y cur) alpha,
            lm_z = lerp (lm_z p) (lm_z cur) alpha,
            lm_visibility = lm_visibility cur \<rparr>
   }"

definition adaptiveSmoothLandmarks ::
  "landmark list \<Rightarrow> landmark list option \<Rightarrow> landmark list option" where
  "adaptiveSmoothLandmarks current prevRef =
     (case prevRef of
        None \<Rightarrow> Some current
      | Some prev \<Rightarrow>
          those (map (\<lambda>i. smoothLandmark (globalVelocity current prev) (current ! i) (jsnth prev i))
                     [0..<length current]))"

subsection \<open>Tracking quality\<close>

text \<open>One step of the loop over the indices 11..22, on the pair (totalVis, count).\<close>

definition visStep :: "landmark list \<Rightarrow> nat \<Rightarrow> real \<times> nat \<Rightarrow> real \<times> nat" where
  "visStep s i acc =
     (case jsnth s i of Some lm \<Rightarrow> (fst acc + vis lm, snd acc + 1) | None \<Rightarrow> acc)"

definition trackingScore :: "landmark list \<Rightarrow> real option" where
  "trackingScore s = do {
     let acc = fold (visStep s) [11..<23] (0, 0);
     let score = (if snd acc > 0 then fst acc / real (snd acc) else 0);
     l \<leftarrow> jsnth s 11;
     r \<leftarrow> jsnth s 12;
     let sWidth = \<bar>lm_x l - lm_x r\<bar>;
     Some (if sWidth < 0.05 then score * 0.5 else score)
   }"

text \<open>The \<open>if / else if / else\<close> chain assigning \<open>currentQuality\<close>.\<close>

definition classify :: "real \<Rightarrow> quality" where
  "classify score = (if score > 0.8 then GOOD else if score > 0.5 then POOR else LOST)"

subsection \<open>Heuristic form analyzer (\<open>analyzePose\<close>)\<close>

definition isVisible :: "landmark \<Rightarrow> bool" where
  "isVisible lm = (vis lm > 0.5)"

text \<open>The local constants \<open>shoulderWidth\<close>, \<open>torsoHeight\<close> and \<open>bodyScale\<close>.\<close>

definition shoulderWidth :: "landmark \<Rightarrow> landmark \<Rightarrow> real" where
  "shoulderWidth leftShoulder rightShoulder = \<bar>lm_x leftShoulder - lm_x rightShoulder\<bar>"

definition torsoHeight :: "landmark \<Rightarrow> landmark \<Rightarrow> landmark \<Rightarrow> landmark \<Rightarrow> real" where
  "torsoHeight leftShoulder rightShoulder leftHip rightHip =
     \<bar>(lm_y leftShoulder + lm_y rightShoulder) / 2 - (lm_y leftHip + lm_y rightHip) / 2\<bar>"

definition bodyScale :: "landmark \<Rightarrow> landmark \<Rightarrow> landmark \<Rightarrow> landmark \<Rightarrow> real" where
  "bodyScale leftShoulder rightShoulder leftHip rightHip =
     (shoulderWidth leftShoulder rightShoulder
      + torsoHeight leftShoulder rightShoulder leftHip rightHip) / 2"

text \<open>
  The \<open>case\<close> blocks of the \<open>switch\<close>. Each yields the returned cue, \<open>Some None\<close> standing
  for \<open>break\<close> followed by the final \<open>return null\<close>. In \<open>a && b\<close> and \<open>a || b\<close> the second
  operand is read only when the first does not decide.
\<close>

definition squatRules :: "landmark list \<Rightarrow> real \<Rightarrow> string option option" where
  "squatRules landmarks bs = do {
     leftKnee \<leftarrow> jsnth landmarks 25;
     rightKnee \<leftarrow> jsnth landmarks 26;
     let kneeWidth = \<bar>lm_x leftKnee - lm_x rightKnee\<bar>;
     leftAnkle \<leftarrow> jsnth landmarks 27;
     rightAnkle \<leftarrow> jsnth landmarks 28;
     let ankleWidth = \<bar>lm_x leftAnkle - lm_x rightAnkle\<bar>;
     if ankleWidth > bs * 0.2 \<and> kneeWidth < ankleWidth * 0.75 then Some (Some ''Push Knees Out!'')
     else (let Z_THRESHOLD = bs * 0.6
           in if lm_z leftKnee < lm_z leftAnkle - Z_THRESHOLD
                 \<or> lm_z rightKnee < lm_z rightAnkle - Z_THRESHOLD
              then Some (Some ''Keep Knees Behind Toes'')
              else Some None)
   }"

definition pushupRules :: "landmark list \<Rightarrow> landmark \<Rightarrow> landmark \<Rightarrow> real \<Rightarrow> string option option" where
  "pushupRules landmarks leftShoulder leftHip bs =
     (let SAG_THRESHOLD = bs * 0.3
      in if lm_y leftHip > lm_y leftShoulder + SAG_THRESHOLD then do {
           leftHeel \<leftarrow> jsnth landmarks 29;
           if lm_y leftHip > lm_y leftHeel + SAG_THRESHOLD then Some (Some ''Lift Your Hips!'')
           else Some None
         }
         else Some None)"

definition lungeRules :: "real \<Rightarrow> string option option" where
  "lungeRules stabilityScore =
     (if stabilityScore > 0.003 then Some (Some ''Balance & Control'') else Some None)"

text \<open>
  The two \<open>if (leftActive)\<close> and \<open>if (rightActive)\<close> blocks: \<open>Some cue\<close> when the block
  returns \<open>cue\<close>, \<open>None\<close> when control falls out of the block.
\<close>

definition leftArmBlock ::
  "landmark list \<Rightarrow> landmark \<Rightarrow> landmark \<Rightarrow> real \<Rightarrow> real \<Rightarrow> string option option" where
  "leftArmBlock landmarks leftShoulder leftWrist sw stabilityScore = do {
     leftElbow \<leftarrow> jsnth landmarks 13;
     let elbowDrift = \<bar>lm_x leftElbow - lm_x leftShoulder\<bar>;
     if elbowDrift > sw * 0.9 then Some (Some ''Tuck Left Elbow'')
     else (let angle = calculateAngle leftShoulder leftElbow leftWrist
           in if angle > 160 \<and> stabilityScore < 0.001 then Some (Some ''Curl up fully'')
              else Some None)
   }"

definition rightArmBlock :: "landmark list \<Rightarrow> landmark \<Rightarrow> real \<Rightarrow> string option option" where
  "rightArmBlock landmarks rightShoulder sw = do {
     rightElbow \<leftarrow> jsnth landmarks 14;
     let elbowDrift = \<bar>lm_x rightElbow - lm_x rightShoulder\<bar>;
     if elbowDrift > sw * 0.9 then Some (Some ''Tuck Right Elbow'') else Some None
   }"

definition bicepCurlRules ::
  "landmark list \<Rightarrow> landmark \<Rightarrow> landmark \<Rightarrow> landmark \<Rightarrow> landmark \<Rightarrow> real \<Rightarrow> real
   \<Rightarrow> string option option" where
  "bicepCurlRules landmarks leftShoulder rightShoulder leftHip rightHip sw stabilityScore = do {
     leftWrist \<leftarrow> jsnth landmarks 15;
     let leftActive = (lm_y leftWrist < lm_y leftHip \<and> isVisible leftWrist);
     rightWrist \<leftarrow> jsnth landmarks 16;
     let rightActive = (lm_y rightWrist < lm_y rightHip \<and> isVisible rightWrist);
     leftReturn \<leftarrow> (if leftActive
                    then leftArmBlock landmarks leftShoulder leftWrist sw stabilityScore
                    else Some None);
     case leftReturn of
       Some cue \<Rightarrow> Some (Some cue)
     | None \<Rightarrow> do {
         rightReturn \<leftarrow> (if rightActive then rightArmBlock landmarks rightShoulder sw
                         else Some None);
         case rightReturn of
           Some cue \<Rightarrow> Some (Some cue)
         | None \<Rightarrow> if stabilityScore > 0.0025 then Some (Some ''Keep Torso Still'')
                   else Some None
       }
   }"

definition plankRules ::
  "landmark list \<Rightarrow> landmark \<Rightarrow> landmark \<Rightarrow> landmark \<Rightarrow> landmark \<Rightarrow> real \<Rightarrow> real
   \<Rightarrow> string option option" where
  "plankRules landmarks leftShoulder rightShoulder leftHip rightHip bs stabilityScore = do {
     let hipY = (lm_y leftHip + lm_y rightHip) / 2;
     leftAnkle \<leftarrow> jsnth landmarks 27;
     rightAnkle \<leftarrow> jsnth landmarks 28;
     let ankleY = (lm_y leftAnkle + lm_y rightAnkle) / 2;
     let shoulderY = (lm_y leftShoulder + lm_y rightShoulder) / 2;
     let SAG_THRESHOLD = bs * 0.3;
     let PIKE_THRESHOLD = bs * 0.15;
     if hipY > ankleY + SAG_THRESHOLD then Some (Some ''Raise Hips!'')
     else if hipY < shoulderY - PIKE_THRESHOLD then Some (Some ''Lower Hips'')
     else if stabilityScore > 0.002 then Some (Some ''Hold Steady!'')
     else Some None
   }"

definition tricepRules ::
  "landmark list \<Rightarrow> landmark \<Rightarrow> landmark \<Rightarrow> real \<Rightarrow> real \<Rightarrow> string option option" where
  "tricepRules landmarks leftShoulder rightShoulder sw stabilityScore = do {
     leftElbow \<leftarrow> jsnth landmarks 13;
     rightElbow \<leftarrow> jsnth landmarks 14;
     let isLeft = (lm_y leftElbow < lm_y rightElbow);
     let activeShoulder = (if isLeft then leftShoulder else rightShoulder);
     let activeElbow = (if isLeft then leftElbow else rightElbow);
     if \<not> isVisible activeElbow then Some None
     else do {
       activeWrist \<leftarrow> jsnth landmarks (if isLeft then 15 else 16);
       if \<not> isVisible activeWrist then Some None
       else (let isOverhead = (lm_y activeElbow < lm_y activeShoulder);
                 elbowFlare = \<bar>lm_x activeElbow - lm_x activeShoulder\<bar>
             in if \<not> isOverhead then Some (Some ''Raise Elbow High'')
                else if elbowFlare > sw * 1.4 then Some (Some ''Elbow closer to ear'')
                else (let angle = calculateAngle activeShoulder activeElbow activeWrist
                      in if stabilityScore < 0.001 then
                           (if angle > 70 \<and> angle < 140 then Some (Some ''Full Range needed'')
                            else if angle < 60 then Some (Some ''Extend Up'')
                            else if angle > 150 then Some (Some ''Lower Behind Head'')
                            else Some None)
                         else Some None))
     }
   }"

definition analyzePose :: "landmark list \<Rightarrow> WorkoutType \<Rightarrow> real \<Rightarrow> string option option" where
  "analyzePose landmarks workout stabilityScore = do {
     leftShoulder \<leftarrow> jsnth landmarks 11;
     rightShoulder \<leftarrow> jsnth landmarks 12;
     let sw = shoulderWidth leftShoulder rightShoulder;
     leftHip \<leftarrow> jsnth landmarks 23;
     rightHip \<leftarrow> jsnth landmarks 24;
     let bs = bodyScale leftShoulder rightShoulder leftHip rightHip;
     if bs < 0.02 then Some None
     else (case workout of
             SQUAT \<Rightarrow> squatRules landmarks bs
           | PUSHUP \<Rightarrow> pushupRules landmarks leftShoulder leftHip bs
           | LUNGE \<Rightarrow> lungeRules stabilityScore
           | BICEP_CURL \<Rightarrow>
               bicepCurlRules landmarks leftShoulder rightShoulder leftHip rightHip sw
                 stabilityScore
           | PLANK \<Rightarrow>
               plankRules landmarks leftShoulder rightShoulder leftHip rightHip bs
                 stabilityScore
           | TRICEP_EXTENSION \<Rightarrow>
               tricepRules landmarks leftShoulder rightShoulder sw stabilityScore)
   }"

subsection \<open>Anatomical overlay\<close>

text \<open>
  What a frame paints, in order: the torso (with its target flag), a body part between
  two landmark indices (key, target flag, opacity), a joint weld (index, size factor).
\<close>

datatype paint =
    PaintTorso bool
  | PaintPart nat nat partKey bool real
  | PaintWeld nat real

definition drawMusclePart ::
  "landmark list \<Rightarrow> WorkoutType \<Rightarrow> nat \<Rightarrow> nat \<Rightarrow> partKey \<Rightarrow> paint list" where
  "drawMusclePart smoothedLandmarks workoutType startIdx endIdx partKey =
     (case (jsnth smoothedLandmarks startIdx, jsnth smoothedLandmarks endIdx) of
        (Some start, Some stop) \<Rightarrow>
          (let avgVis = (vis start + vis stop) / 2;
               alpha = (if avgVis < 0.3 then 0.3 else 0.6);
               isTarget = (partKey \<in> set (TARGET_SEGMENTS workoutType))
           in [PaintPart startIdx endIdx partKey isTarget alpha])
      | _ \<Rightarrow> [])"

definition drawJointWeld :: "landmark list \<Rightarrow> nat \<Rightarrow> real \<Rightarrow> paint list option" where
  "drawJointWeld smoothedLandmarks idx sizeFactor =
     (case jsnth smoothedLandmarks idx of
        None \<Rightarrow> Some []
      | Some lm \<Rightarrow>
          if vis lm < 0.1 then Some []
          else do {
            l \<leftarrow> jsnth smoothedLandmarks 11;
            r \<leftarrow> jsnth smoothedLandmarks 12;
            Some [PaintWeld idx sizeFactor]
          })"

text \<open>The calls of \<open>drawMusclePart\<close> and of \<open>drawJointWeld\<close>, in the order of the source.\<close>

definition musclePartCalls :: "(nat \<times> nat \<times> partKey) list" where
  "musclePartCalls =
     [(11, 13, upperArm), (12, 14, upperArm), (13, 15, forearm), (14, 16, forearm),
      (23, 25, thigh), (24, 26, thigh), (25, 27, calf), (26, 28, calf),
      (15, 19, digit), (15, 17, digit), (16, 20, digit), (16, 18, digit)]"

definition jointWeldCalls :: "(nat \<times> real) list" where
  "jointWeldCalls =
     [(11, 1), (12, 1), (13, 1), (14, 1), (23, 1), (24, 1), (25, 1), (26, 1),
      (15, 0.8), (16, 0.8)]"

text \<open>
  The drawing of the anatomy: the torso midpoints read landmarks 11, 12, 23 and 24
  before anything is painted.
\<close>

definition renderAnatomy :: "landmark list \<Rightarrow> WorkoutType \<Rightarrow> paint list option" where
  "renderAnatomy smoothedLandmarks workoutType = do {
     l11 \<leftarrow> jsnth smoothedLandmarks 11;
     l12 \<leftarrow> jsnth smoothedLandmarks 12;
     l23 \<leftarrow> jsnth smoothedLandmarks 23;
     l24 \<leftarrow> jsnth smoothedLandmarks 24;
     let torsoShape = [PaintTorso (torso \<in> set (TARGET_SEGMENTS workoutType))];
     let parts = concat (map (\<lambda>(a, b, k). drawMusclePart smoothedLandmarks workoutType a b k)
                             musclePartCalls);
     welds \<leftarrow> those (map (\<lambda>(i, f). drawJointWeld smoothedLandmarks i f) jointWeldCalls);
     Some (torsoShape @ parts @ concat welds)
   }"

subsection \<open>The frame loop (\<open>detectPose\<close>)\<close>

text \<open>
  The refs and the state that one frame reads and writes, and what one frame computes.
  \<open>analyzerRan\<close> records whether the frame called \<open>analyzePose\<close>; \<open>caught\<close> whether the
  \<open>catch\<close> block was entered. The model is the body of the \<open>try\<close> for a frame that passed
  the guards on the video, the container and the canvas context; the segmentation mask
  and the throttled publication of the quality to the component state are left out.
\<close>

record pipeline =
  prevLandmarksRef :: "landmark list option"
  lastValidLandmarksRef :: "landmark list option"
  lastLandmarksTimeRef :: int
  stabilityScoreRef :: real
  lastHeuristicUpdateRef :: int
  heuristicFeedback :: "string option"

record outcome =
  currentQuality :: quality
  currentScore :: real
  painted :: "paint list"
  analyzerRan :: bool
  caught :: bool

text \<open>
  Landmark persistence: \<open>results\<close> is \<open>results.landmarks\<close> (empty when absent), \<open>now\<close> the
  first \<open>Date.now()\<close> of the frame.
\<close>

definition selectLandmarks ::
  "pipeline \<Rightarrow> landmark list list \<Rightarrow> int \<Rightarrow> landmark list option \<times> pipeline" where
  "selectLandmarks st results now =
     (case results of
        l # _ \<Rightarrow> (Some l, st\<lparr>lastValidLandmarksRef := Some l, lastLandmarksTimeRef := now\<rparr>)
      | [] \<Rightarrow>
          (if lastValidLandmarksRef st \<noteq> None \<and> now - lastLandmarksTimeRef st < 200
           then lastValidLandmarksRef st else None, st))"

text \<open>
  The first \<open>if (landmarks)\<close> block: smoothing, drawing, tracking score, and the
  assignment of the smoothed set to \<open>prevLandmarksRef\<close> that ends it.
\<close>

definition trackFrame ::
  "pipeline \<Rightarrow> landmark list \<Rightarrow> WorkoutType \<Rightarrow> (paint list \<times> real \<times> pipeline) option" where
  "trackFrame st landmarks workoutType = do {
     smoothedLandmarks \<leftarrow> adaptiveSmoothLandmarks landmarks (prevLandmarksRef st);
     shapes \<leftarrow> renderAnatomy smoothedLandmarks workoutType;
     score \<leftarrow> trackingScore smoothedLandmarks;
     Some (shapes, score, st\<lparr>prevLandmarksRef := Some smoothedLandmarks\<rparr>)
   }"

text \<open>The stability update guarded by \<open>if (prevLandmarksRef.current)\<close>.\<close>

definition updateStability ::
  "landmark list \<Rightarrow> landmark list option \<Rightarrow> real \<Rightarrow> real option" where
  "updateStability landmarks prevRef stabilityScore =
     (case prevRef of
        None \<Rightarrow> Some stabilityScore
      | Some prev \<Rightarrow> do {
          l23 \<leftarrow> jsnth landmarks 23;
          l24 \<leftarrow> jsnth landmarks 24;
          let currentHips = ((lm_x l23 + lm_x l24) / 2, (lm_y l23 + lm_y l24) / 2);
          p23 \<leftarrow> jsnth prev 23;
          p24 \<leftarrow> jsnth prev 24;
          let prevHips = ((lm_x p23 + lm_x p24) / 2, (lm_y p23 + lm_y p24) / 2);
          let movement = hypot (fst currentHips - fst prevHips) (snd currentHips - snd prevHips);
          Some (stabilityScore * 0.9 + movement * 0.1)
        })"

text \<open>
  The second \<open>if (landmarks)\<close> block: stability update, then the rate-limited analysis;
  \<open>nowH\<close> is the \<open>Date.now()\<close> read inside the block. The result is the state, whether
  \<open>analyzePose\<close> was called, and whether an exception left the block.
\<close>

definition heuristicStage ::
  "pipeline \<Rightarrow> landmark list \<Rightarrow> int \<Rightarrow> bool \<Rightarrow> WorkoutType \<Rightarrow> pipeline \<times> bool \<times> bool" where
  "heuristicStage st landmarks nowH isActive workoutType =
     (case updateStability landmarks (prevLandmarksRef st) (stabilityScoreRef st) of
        None \<Rightarrow> (st, False, True)
      | Some s \<Rightarrow>
          (let st1 = st\<lparr>stabilityScoreRef := s\<rparr>
           in if isActive \<and> nowH - lastHeuristicUpdateRef st1 > 500 then
                (case analyzePose landmarks workoutType (stabilityScoreRef st1) of
                   None \<Rightarrow> (st1, True, True)
                 | Some localCue \<Rightarrow>
                     (st1\<lparr>heuristicFeedback := localCue, lastHeuristicUpdateRef := nowH\<rparr>,
                      True, False))
              else (st1, False, False)))"

text \<open>Everything after the landmark persistence, for the selected \<open>landmarks\<close>.\<close>

definition processFrame ::
  "pipeline \<Rightarrow> landmark list option \<Rightarrow> int \<Rightarrow> int \<Rightarrow> bool \<Rightarrow> WorkoutType
   \<Rightarrow> pipeline \<times> outcome" where
  "processFrame st landmarks now nowH isActive workoutType =
     (case landmarks of
        Some lms \<Rightarrow>
          (case trackFrame st lms workoutType of
             None \<Rightarrow>
               (st, \<lparr>currentQuality = LOST, currentScore = 0, painted = [],
                     analyzerRan = False, caught = True\<rparr>)
           | Some (shapes, score, st2) \<Rightarrow>
               (case heuristicStage st2 lms nowH isActive workoutType of
                  (st3, called, threw) \<Rightarrow>
                    (st3, \<lparr>currentQuality = classify score, currentScore = score,
                           painted = shapes, analyzerRan = called, caught = threw\<rparr>)))
      | None \<Rightarrow>
          (if now - lastLandmarksTimeRef st > 200
           then (st\<lparr>prevLandmarksRef := None\<rparr>,
                 \<lparr>currentQuality = LOST, currentScore = 0, painted = [],
                  analyzerRan = False, caught = False\<rparr>)
           else (st, \<lparr>currentQuality = LOST, currentScore = 0, painted = [],
                      analyzerRan = False, caught = False\<rparr>)))"

definition detectPose ::
  "pipeline \<Rightarrow> landmark list list \<Rightarrow> int \<Rightarrow> int \<Rightarrow> bool \<Rightarrow> WorkoutType
   \<Rightarrow> pipeline \<times> outcome" where
  "detectPose st results now nowH isActive workoutType =
     (case selectLandmarks st results now of
        (landmarks, st1) \<Rightarrow> processFrame st1 landmarks now nowH isActive workoutType)"

text \<open>A run of frames, each with its detection result, its two clock readings and the props.\<close>

record frame =
  f_results :: "landmark list list"
  f_now :: int
  f_nowH :: int
  f_isActive :: bool
  f_workoutType :: WorkoutType

fun runFrames :: "pipeline \<Rightarrow> frame list \<Rightarrow> pipeline \<times> outcome list" where
  "runFrames st [] = (st, [])"
| "runFrames st (f # fs) =
     (case detectPose st (f_results f) (f_now f) (f_nowH f) (f_isActive f) (f_workoutType f) of
        (st1, out) \<Rightarrow> (case runFrames st1 fs of (st2, outs) \<Rightarrow> (st2, out # outs)))"

subsection \<open>Auxiliary definitions for the statements\<close>

text \<open>The landmark the smoother's callback returns when \<open>prev[i]\<close> is defined.\<close>

definition blended :: "real \<Rightarrow> landmark \<Rightarrow> landmark \<Rightarrow> landmark" where
  "blended gv cur p =
     (let alpha = blendAlpha (max (hypot (lm_x cur - lm_x p) (lm_y cur - lm_y p)) (gv * 0.6))
      in \<lparr> lm_x = lerp (lm_x p) (lm_x cur) alpha,
           lm_y = lerp (lm_y p) (lm_y cur) alpha,
           lm_z = lerp (lm_z p) (lm_z cur) alpha,
           lm_visibility = lm_visibility cur \<rparr>)"

text \<open>
  Sample frames for the closed instances: a subject standing upright, facing the
  camera, all 33 landmarks visible; and variants of it.
\<close>

definition lmk :: "real \<Rightarrow> real \<Rightarrow> real \<Rightarrow> real \<Rightarrow> landmark" where
  "lmk a b c v = \<lparr> lm_x = a, lm_y = b, lm_z = c, lm_visibility = Some v \<rparr>"

definition standingPose :: "landmark list" where
  "standingPose =
     [lmk 0.5 0.1 0 1, lmk 0.5 0.1 0 1, lmk 0.5 0.1 0 1, lmk 0.5 0.1 0 1, lmk 0.5 0.1 0 1,
      lmk 0.5 0.1 0 1, lmk 0.5 0.1 0 1, lmk 0.5 0.1 0 1, lmk 0.5 0.1 0 1, lmk 0.5 0.1 0 1,
      lmk 0.5 0.1 0 1,
      lmk 0.6 0.3 0 1, lmk 0.4 0.3 0 1,
      lmk 0.62 0.45 0 1, lmk 0.38 0.45 0 1,
      lmk 0.62 0.6 0 1, lmk 0.38 0.6 0 1,
      lmk 0.62 0.63 0 1, lmk 0.38 0.63 0 1, lmk 0.62 0.63 0 1, lmk 0.38 0.63 0 1,
      lmk 0.62 0.63 0 1, lmk 0.38 0.63 0 1,
      lmk 0.56 0.6 0 1, lmk 0.44 0.6 0 1,
      lmk 0.56 0.75 0 1, lmk 0.44 0.75 0 1,
      lmk 0.56 0.9 0 1, lmk 0.44 0.9 0 1,
      lmk 0.56 0.93 0 1, lmk 0.44 0.93 0 1,
      lmk 0.56 0.95 0 1, lmk 0.44 0.95 0 1]"

definition kneesInPose :: "landmark list" where
  "kneesInPose = standingPose[25 := lmk 0.52 0.75 (- 1) 1, 26 := lmk 0.48 0.75 (- 1) 1]"

definition kneesForwardPose :: "landmark list" where
  "kneesForwardPose = standingPose[25 := lmk 0.56 0.75 (- 0.2) 1]"

definition flaredElbowPose :: "landmark list" where
  "flaredElbowPose = standingPose[13 := lmk 0.85 0.45 0 1, 15 := lmk 0.85 0.5 0 1]"

text \<open>A landmark moved sideways, and the standing subject moved by 0.1.\<close>

definition shiftX :: "real \<Rightarrow> landmark \<Rightarrow> landmark" where
  "shiftX d lm = lm\<lparr>lm_x := lm_x lm + d\<rparr>"

definition shiftedPose :: "landmark list" where
  "shiftedPose = map (shiftX 0.1) standingPose"

text \<open>
  The refs as the component creates them; the state after one inactive frame at time
  1000 that detected the standing subject (see \<open>run_state_1\<close>); frames with and without
  a detection, both clock readings equal.
\<close>

definition initialState :: pipeline where
  "initialState = \<lparr> prevLandmarksRef = None, lastValidLandmarksRef = None,
                    lastLandmarksTimeRef = 0, stabilityScoreRef = 0,
                    lastHeuristicUpdateRef = 0, heuristicFeedback = None \<rparr>"

definition trackedState :: pipeline where
  "trackedState = \<lparr> prevLandmarksRef = Some standingPose,
                    lastValidLandmarksRef = Some standingPose,
                    lastLandmarksTimeRef = 1000, stabilityScoreRef = 0,
                    lastHeuristicUpdateRef = 0, heuristicFeedback = None \<rparr>"

definition detection :: "landmark list \<Rightarrow> int \<Rightarrow> bool \<Rightarrow> frame" where
  "detection l t a = \<lparr> f_results = [l], f_now = t, f_nowH = t, f_isActive = a,
                       f_workoutType = SQUAT \<rparr>"

definition noDetection :: "int \<Rightarrow> bool \<Rightarrow> frame" where
  "noDetection t a = \<lparr> f_results = [], f_now = t, f_nowH = t, f_isActive = a,
                       f_workoutType = SQUAT \<rparr>"

section \<open>Properties\<close>

subsection \<open>The blend factor\<close>

lemma blendAlpha_low: "metric \<le> lowerThreshold \<Longrightarrow> blendAlpha metric = minAlpha"
  by (simp add: blendAlpha_def)

lemma blendAlpha_high: "upperThreshold \<le> metric \<Longrightarrow> blendAlpha metric = maxAlpha"
  by (simp add: blendAlpha_def lowerThreshold_def upperThreshold_def Let_def min_def)

lemma cube_antimono: "(a::real) \<le> b \<Longrightarrow> b \<le> 1 \<Longrightarrow> (1 - b) ^ 3 \<le> (1 - a) ^ 3"
  by (rule power_mono) simp_all

lemma blendAlpha_mono: "m1 \<le> m2 \<Longrightarrow> blendAlpha m1 \<le> blendAlpha m2"
proof -
  assume le: "m1 \<le> m2"
  let ?t = "\<lambda>m::real. min 1 ((m - lowerThreshold) / (upperThreshold - lowerThreshold))"
  have pos: "0 < upperThreshold - lowerThreshold"
    by (simp add: lowerThreshold_def upperThreshold_def)
  have d: "0 \<le> maxAlpha - minAlpha" by (simp add: minAlpha_def maxAlpha_def)
  show ?thesis
  proof (cases "m1 > lowerThreshold")
    case True
    then have m2: "m2 > lowerThreshold" using le by simp
    have "?t m1 \<le> ?t m2"
      using le pos by (simp add: divide_right_mono min.coboundedI2)
    then have "(1 - ?t m2) ^ 3 \<le> (1 - ?t m1) ^ 3" by (rule cube_antimono) simp
    then have "(maxAlpha - minAlpha) * (1 - (1 - ?t m1) ^ 3)
               \<le> (maxAlpha - minAlpha) * (1 - (1 - ?t m2) ^ 3)"
      using d by (intro mult_left_mono) simp_all
    then show ?thesis using True m2 by (simp add: blendAlpha_def Let_def)
  next
    case False
    show ?thesis
    proof (cases "m2 > lowerThreshold")
      case True
      have "0 \<le> ?t m2" using True pos by simp
      then have "(1 - ?t m2) ^ 3 \<le> (1 - 0) ^ 3" by (intro power_mono) simp_all
      then have "0 \<le> (maxAlpha - minAlpha) * (1 - (1 - ?t m2) ^ 3)"
        using d by (intro mult_nonneg_nonneg) simp_all
      then show ?thesis using False True by (simp add: blendAlpha_def Let_def)
    next
      case F2: False
      then show ?thesis using False by (simp add: blendAlpha_def)
    qed
  qed
qed


lemma blendAlpha_spec: "blendAlpha metric = spec_blend metric"
proof (cases "metric > lowerThreshold")
  case True
  then have "0 \<le> (metric - 0.0005) / (0.025 - 0.0005)" by (simp add: lowerThreshold_def)
  then have "clamp ((metric - 0.0005) / (0.025 - 0.0005)) 0 1
             = min 1 ((metric - 0.0005) / (0.025 - 0.0005))"
    by (simp add: clamp_def max_def min_def)
  then show ?thesis using True
    by (simp add: blendAlpha_def spec_blend_def Let_def lowerThreshold_def upperThreshold_def
        minAlpha_def maxAlpha_def)
next
  case False
  then have "(metric - 0.0005) / (0.025 - 0.0005) \<le> 0"
    by (simp add: lowerThreshold_def divide_le_0_iff)
  then have "clamp ((metric - 0.0005) / (0.025 - 0.0005)) 0 1 = 0"
    by (simp add: clamp_def max_def min_def)
  then show ?thesis using False
    by (simp add: blendAlpha_def spec_blend_def Let_def minAlpha_def)
qed

text \<open>
  C3. The blend factor computed by the smoother is the cubic ease-out of the
  specification, \<open>minAlpha + (maxAlpha - minAlpha) * (1 - (1 - t)^3)\<close> with
  \<open>t = clamp ((metric - 0.0005) / (0.025 - 0.0005), 0, 1)\<close>. It is 0.08 for every metric
  up to 0.0005, it is 0.92 for every metric from 0.025 on, and it never decreases when
  the metric grows (between the thresholds and everywhere else). Numbers are exact reals.
\<close>

theorem blend_factor_curve:
  "blendAlpha metric = spec_blend metric
   \<and> (metric \<le> 0.0005 \<longrightarrow> blendAlpha metric = 0.08)
   \<and> (0.025 \<le> metric \<longrightarrow> blendAlpha metric = 0.92)
   \<and> (metric \<le> metric' \<longrightarrow> blendAlpha metric \<le> blendAlpha metric')"
  using blendAlpha_spec [of metric] blendAlpha_low [of metric] blendAlpha_high [of metric]
    blendAlpha_mono [of metric metric']
  by (simp add: lowerThreshold_def upperThreshold_def minAlpha_def maxAlpha_def)

theorem blend_factor_curve_witness:
  "blendAlpha 0.0003 = spec_blend 0.0003 \<and> blendAlpha 0.0003 = 0.08
   \<and> blendAlpha 0.03 = 0.92 \<and> blendAlpha 0.001 \<le> blendAlpha 0.01"
  using blend_factor_curve [of "0.0003" "0.0003"] blend_factor_curve [of "0.03" "0.03"]
    blend_factor_curve [of "0.001" "0.01"]
  by simp

subsection \<open>Tracking quality\<close>

text \<open>
  C4. The quality class is a function of the score alone: GOOD exactly when the score
  exceeds 0.8, POOR exactly when it lies in (0.5, 0.8], LOST exactly when it is at most
  0.5; the scores 0.81, 0.8, 0.51, 0.5 and 0.2 give GOOD, POOR, POOR, LOST and LOST.
\<close>

theorem tracking_quality_classes:
  "(classify score = GOOD) = (score > 0.8)
   \<and> (classify score = POOR) = (0.5 < score \<and> score \<le> 0.8)
   \<and> (classify score = LOST) = (score \<le> 0.5)
   \<and> classify 0.81 = GOOD \<and> classify 0.8 = POOR \<and> classify 0.51 = POOR
   \<and> classify 0.5 = LOST \<and> classify 0.2 = LOST"
  by (auto simp add: classify_def)

subsection \<open>The smoother\<close>

lemma those_map_Some: "those (map (\<lambda>i. Some (g i)) xs) = Some (map g xs)"
  by (induction xs) simp_all

lemma those_map_None: "x \<in> set xs \<Longrightarrow> f x = None \<Longrightarrow> those (map f xs) = None"
  by (induction xs) (auto split: option.splits)



lemma smoothLandmark_Some:
  "smoothLandmark gv cur (Some p) = Some (blended gv cur p)"
  by (simp add: smoothLandmark_def blended_def Let_def)


lemma adaptiveSmooth_total:
  assumes "length current \<le> length prev"
  shows "adaptiveSmoothLandmarks current (Some prev)
         = Some (map (\<lambda>i. blended (globalVelocity current prev) (current ! i) (prev ! i))
                     [0..<length current])"
proof -
  have eq: "map (\<lambda>i. smoothLandmark (globalVelocity current prev) (current ! i) (jsnth prev i))
            [0..<length current]
        = map (\<lambda>i. Some (blended (globalVelocity current prev) (current ! i) (prev ! i)))
            [0..<length current]"
    using assms by (simp add: jsnth_def smoothLandmark_Some)
  show ?thesis by (simp only: adaptiveSmoothLandmarks_def option.case eq those_map_Some)
qed

lemma adaptiveSmooth_throws:
  assumes "length prev < length current"
  shows "adaptiveSmoothLandmarks current (Some prev) = None"
proof -
  have "length prev \<in> set [0..<length current]" using assms by simp
  moreover have "smoothLandmark (globalVelocity current prev) (current ! length prev)
                   (jsnth prev (length prev)) = None"
    by (simp add: jsnth_def smoothLandmark_def)
  ultimately show ?thesis
    unfolding adaptiveSmoothLandmarks_def option.case
    by (rule those_map_None)
qed




subsection \<open>The heuristic analyzer\<close>

lemma standing_length: "length standingPose = 33"
  by (simp add: standingPose_def)

lemma jsnth_update:
  "jsnth (xs[i := v]) j = (if i = j \<and> j < length xs then Some v else jsnth xs j)"
  by (simp add: jsnth_def)

lemma standing_nth:
  "jsnth standingPose 11 = Some (lmk 0.6 0.3 0 1)"
  "jsnth standingPose 12 = Some (lmk 0.4 0.3 0 1)"
  "jsnth standingPose 13 = Some (lmk 0.62 0.45 0 1)"
  "jsnth standingPose 14 = Some (lmk 0.38 0.45 0 1)"
  "jsnth standingPose 15 = Some (lmk 0.62 0.6 0 1)"
  "jsnth standingPose 16 = Some (lmk 0.38 0.6 0 1)"
  "jsnth standingPose 23 = Some (lmk 0.56 0.6 0 1)"
  "jsnth standingPose 24 = Some (lmk 0.44 0.6 0 1)"
  "jsnth standingPose 25 = Some (lmk 0.56 0.75 0 1)"
  "jsnth standingPose 26 = Some (lmk 0.44 0.75 0 1)"
  "jsnth standingPose 27 = Some (lmk 0.56 0.9 0 1)"
  "jsnth standingPose 28 = Some (lmk 0.44 0.9 0 1)"
  by (simp_all add: jsnth_def standingPose_def)

text \<open>
  C6. Whenever the four shoulder and hip landmarks are present and
  \<open>bodyScale = (shoulderWidth + torsoHeight) / 2\<close>, with
  \<open>torsoHeight = \<bar>meanShoulderY - meanHipY\<bar>\<close>, is below 0.02, the analyzer returns no
  cue, for every exercise, every other landmark and every stability score.
\<close>

theorem analyzer_silent_when_small:
  assumes "jsnth landmarks 11 = Some leftShoulder" and "jsnth landmarks 12 = Some rightShoulder"
    and "jsnth landmarks 23 = Some leftHip" and "jsnth landmarks 24 = Some rightHip"
    and "bodyScale leftShoulder rightShoulder leftHip rightHip < 0.02"
  shows "analyzePose landmarks workout stabilityScore = Some None"
  using assms by (simp add: analyzePose_def)

theorem analyzer_silent_when_small_witness:
  "bodyScale (lmk 0.5 0.1 0 1) (lmk 0.5 0.1 0 1) (lmk 0.5 0.1 0 1) (lmk 0.5 0.1 0 1) < 0.02
   \<and> analyzePose (replicate 33 (lmk 0.5 0.1 0 1)) BICEP_CURL 0.01 = Some None"
proof -
  let ?p = "lmk 0.5 0.1 0 1"
  have n: "jsnth (replicate 33 ?p) 11 = Some ?p" "jsnth (replicate 33 ?p) 12 = Some ?p"
    "jsnth (replicate 33 ?p) 23 = Some ?p" "jsnth (replicate 33 ?p) 24 = Some ?p"
    by (simp_all add: jsnth_def)
  have b: "bodyScale ?p ?p ?p ?p < 0.02"
    by (simp add: bodyScale_def shoulderWidth_def torsoHeight_def)
  show ?thesis
    using analyzer_silent_when_small [OF n b, of BICEP_CURL "0.01"] b by simp
qed

text \<open>
  C7. Squat, with the body scale at least 0.02 and the knee and ankle landmarks
  present: when the ankle width exceeds 0.2 * bodyScale and the knee width is below
  0.75 * ankleWidth the cue is exactly "Push Knees Out!", whatever the depths are (the
  depth rule is not reached); and the cue is "Keep Knees Behind Toes" exactly when that
  first rule fails and one knee is closer than its ankle by more than 0.6 * bodyScale.
\<close>

theorem squat_rule_order:
  assumes "jsnth landmarks 11 = Some leftShoulder" and "jsnth landmarks 12 = Some rightShoulder"
    and "jsnth landmarks 23 = Some leftHip" and "jsnth landmarks 24 = Some rightHip"
    and "jsnth landmarks 25 = Some leftKnee" and "jsnth landmarks 26 = Some rightKnee"
    and "jsnth landmarks 27 = Some leftAnkle" and "jsnth landmarks 28 = Some rightAnkle"
    and "bs = bodyScale leftShoulder rightShoulder leftHip rightHip" and "0.02 \<le> bs"
    and "kneeWidth = \<bar>lm_x leftKnee - lm_x rightKnee\<bar>"
    and "ankleWidth = \<bar>lm_x leftAnkle - lm_x rightAnkle\<bar>"
  shows "(ankleWidth > 0.2 * bs \<and> kneeWidth < 0.75 * ankleWidth
            \<longrightarrow> analyzePose landmarks SQUAT stabilityScore = Some (Some ''Push Knees Out!''))
       \<and> ((analyzePose landmarks SQUAT stabilityScore = Some (Some ''Keep Knees Behind Toes''))
           = (\<not> (ankleWidth > 0.2 * bs \<and> kneeWidth < 0.75 * ankleWidth)
              \<and> (lm_z leftKnee < lm_z leftAnkle - 0.6 * bs
                 \<or> lm_z rightKnee < lm_z rightAnkle - 0.6 * bs)))"
  using assms by (simp add: analyzePose_def squatRules_def Let_def mult.commute)

lemmas lmk_fields = lmk_def bodyScale_def shoulderWidth_def torsoHeight_def isVisible_def vis_def

theorem squat_rule_order_witness:
  "analyzePose kneesInPose SQUAT 0 = Some (Some ''Push Knees Out!'')
   \<and> analyzePose kneesForwardPose SQUAT 0 = Some (Some ''Keep Knees Behind Toes'')
   \<and> analyzePose standingPose SQUAT 0 \<noteq> Some (Some ''Keep Knees Behind Toes'')"
proof -
  have a: "analyzePose kneesInPose SQUAT 0 = Some (Some ''Push Knees Out!'')"
    using squat_rule_order [of kneesInPose "lmk 0.6 0.3 0 1" "lmk 0.4 0.3 0 1"
        "lmk 0.56 0.6 0 1" "lmk 0.44 0.6 0 1" "lmk 0.52 0.75 (- 1) 1" "lmk 0.48 0.75 (- 1) 1"
        "lmk 0.56 0.9 0 1" "lmk 0.44 0.9 0 1" "0.25" "0.04" "0.12" 0]
    by (simp add: kneesInPose_def jsnth_update standing_nth standing_length lmk_fields)
  have b: "analyzePose kneesForwardPose SQUAT 0 = Some (Some ''Keep Knees Behind Toes'')"
    using squat_rule_order [of kneesForwardPose "lmk 0.6 0.3 0 1" "lmk 0.4 0.3 0 1"
        "lmk 0.56 0.6 0 1" "lmk 0.44 0.6 0 1" "lmk 0.56 0.75 (- 0.2) 1" "lmk 0.44 0.75 0 1"
        "lmk 0.56 0.9 0 1" "lmk 0.44 0.9 0 1" "0.25" "0.12" "0.12" 0]
    by (simp add: kneesForwardPose_def jsnth_update standing_nth standing_length lmk_fields)
  have c: "analyzePose standingPose SQUAT 0 \<noteq> Some (Some ''Keep Knees Behind Toes'')"
    using squat_rule_order [of standingPose "lmk 0.6 0.3 0 1" "lmk 0.4 0.3 0 1"
        "lmk 0.56 0.6 0 1" "lmk 0.44 0.6 0 1" "lmk 0.56 0.75 0 1" "lmk 0.44 0.75 0 1"
        "lmk 0.56 0.9 0 1" "lmk 0.44 0.9 0 1" "0.25" "0.12" "0.12" 0]
    by (simp add: standing_nth lmk_fields)
  show ?thesis using a b c by simp
qed

lemma bicep_curl_cases:
  assumes "jsnth landmarks 11 = Some leftShoulder" and "jsnth landmarks 12 = Some rightShoulder"
    and "jsnth landmarks 13 = Some leftElbow" and "jsnth landmarks 14 = Some rightElbow"
    and "jsnth landmarks 15 = Some leftWrist" and "jsnth landmarks 16 = Some rightWrist"
    and "jsnth landmarks 23 = Some leftHip" and "jsnth landmarks 24 = Some rightHip"
    and "0.02 \<le> bodyScale leftShoulder rightShoulder leftHip rightHip"
    and "sw = shoulderWidth leftShoulder rightShoulder"
    and "leftTuck = (lm_y leftWrist < lm_y leftHip \<and> isVisible leftWrist
                     \<and> \<bar>lm_x leftElbow - lm_x leftShoulder\<bar> > 0.9 * sw)"
    and "leftCurl = (lm_y leftWrist < lm_y leftHip \<and> isVisible leftWrist
                     \<and> calculateAngle leftShoulder leftElbow leftWrist > 160
                     \<and> stabilityScore < 0.001)"
    and "rightTuck = (lm_y rightWrist < lm_y rightHip \<and> isVisible rightWrist
                      \<and> \<bar>lm_x rightElbow - lm_x rightShoulder\<bar> > 0.9 * sw)"
  shows "analyzePose landmarks BICEP_CURL stabilityScore =
           Some (if leftTuck then Some ''Tuck Left Elbow''
                 else if leftCurl then Some ''Curl up fully''
                 else if rightTuck then Some ''Tuck Right Elbow''
                 else if stabilityScore > 0.0025 then Some ''Keep Torso Still''
                 else None)"
  using assms
  by (simp add: analyzePose_def bicepCurlRules_def leftArmBlock_def rightArmBlock_def Let_def
      mult.commute)

text \<open>
  C2 (amended). In the bicep-curl rules every per-arm rule returns its cue at once:
  when the left elbow rule fires the cue is "Tuck Left Elbow"; when the right elbow rule
  fires and the left arm returned nothing the cue is "Tuck Right Elbow"; and the cue is
  "Keep Torso Still" exactly when the stability score exceeds 0.0025 and no elbow rule
  fired. The stability check never replaces an elbow cue.
\<close>

theorem bicep_curl_precedence:
  assumes "jsnth landmarks 11 = Some leftShoulder" and "jsnth landmarks 12 = Some rightShoulder"
    and "jsnth landmarks 13 = Some leftElbow" and "jsnth landmarks 14 = Some rightElbow"
    and "jsnth landmarks 15 = Some leftWrist" and "jsnth landmarks 16 = Some rightWrist"
    and "jsnth landmarks 23 = Some leftHip" and "jsnth landmarks 24 = Some rightHip"
    and "0.02 \<le> bodyScale leftShoulder rightShoulder leftHip rightHip"
    and "sw = shoulderWidth leftShoulder rightShoulder"
    and "leftTuck = (lm_y leftWrist < lm_y leftHip \<and> isVisible leftWrist
                     \<and> \<bar>lm_x leftElbow - lm_x leftShoulder\<bar> > 0.9 * sw)"
    and "leftCurl = (lm_y leftWrist < lm_y leftHip \<and> isVisible leftWrist
                     \<and> calculateAngle leftShoulder leftElbow leftWrist > 160
                     \<and> stabilityScore < 0.001)"
    and "rightTuck = (lm_y rightWrist < lm_y rightHip \<and> isVisible rightWrist
                      \<and> \<bar>lm_x rightElbow - lm_x rightShoulder\<bar> > 0.9 * sw)"
  shows "(leftTuck \<longrightarrow>
            analyzePose landmarks BICEP_CURL stabilityScore = Some (Some ''Tuck Left Elbow''))
       \<and> (rightTuck \<and> \<not> leftTuck \<and> \<not> leftCurl \<longrightarrow>
            analyzePose landmarks BICEP_CURL stabilityScore = Some (Some ''Tuck Right Elbow''))
       \<and> ((analyzePose landmarks BICEP_CURL stabilityScore = Some (Some ''Keep Torso Still''))
           = (stabilityScore > 0.0025 \<and> \<not> leftTuck \<and> \<not> rightTuck))"
proof -
  have "leftCurl \<longrightarrow> \<not> stabilityScore > 0.0025" using assms(12) by auto
  then show ?thesis
    unfolding bicep_curl_cases [OF assms] by auto
qed

theorem bicep_curl_precedence_witness:
  "analyzePose flaredElbowPose BICEP_CURL 0.01 = Some (Some ''Tuck Left Elbow'')
   \<and> analyzePose standingPose BICEP_CURL 0.01 = Some (Some ''Keep Torso Still'')"
proof -
  have n: "jsnth flaredElbowPose 11 = Some (lmk 0.6 0.3 0 1)"
    "jsnth flaredElbowPose 12 = Some (lmk 0.4 0.3 0 1)"
    "jsnth flaredElbowPose 13 = Some (lmk 0.85 0.45 0 1)"
    "jsnth flaredElbowPose 14 = Some (lmk 0.38 0.45 0 1)"
    "jsnth flaredElbowPose 15 = Some (lmk 0.85 0.5 0 1)"
    "jsnth flaredElbowPose 16 = Some (lmk 0.38 0.6 0 1)"
    "jsnth flaredElbowPose 23 = Some (lmk 0.56 0.6 0 1)"
    "jsnth flaredElbowPose 24 = Some (lmk 0.44 0.6 0 1)"
    by (simp_all add: flaredElbowPose_def jsnth_update standing_nth standing_length)
  have b: "0.02 \<le> bodyScale (lmk 0.6 0.3 0 1) (lmk 0.4 0.3 0 1) (lmk 0.56 0.6 0 1)
                     (lmk 0.44 0.6 0 1)"
    by (simp add: lmk_fields)
  have l: "analyzePose flaredElbowPose BICEP_CURL 0.01 = Some (Some ''Tuck Left Elbow'')"
    using bicep_curl_precedence [OF n b refl refl refl refl, of "0.01"]
    by (simp add: lmk_fields)
  have t: "analyzePose standingPose BICEP_CURL 0.01 = Some (Some ''Keep Torso Still'')"
    using bicep_curl_precedence [OF standing_nth(1-6) standing_nth(7,8) b refl refl refl refl,
        of "0.01"]
    by (simp add: lmk_fields)
  show ?thesis using l t by simp
qed

text \<open>
  The claim as stated fails: with the left elbow flared and a stability score of 0.01
  the cue is the elbow cue, and no frame in which an elbow rule fired yields
  "Keep Torso Still".
\<close>

theorem torso_overrides_elbow_counterexample:
  "analyzePose flaredElbowPose BICEP_CURL 0.01 = Some (Some ''Tuck Left Elbow'')
   \<and> \<not> (\<exists>landmarks stabilityScore leftShoulder rightShoulder leftElbow rightElbow
           leftWrist rightWrist leftHip rightHip.
         jsnth landmarks 11 = Some leftShoulder \<and> jsnth landmarks 12 = Some rightShoulder
         \<and> jsnth landmarks 13 = Some leftElbow \<and> jsnth landmarks 14 = Some rightElbow
         \<and> jsnth landmarks 15 = Some leftWrist \<and> jsnth landmarks 16 = Some rightWrist
         \<and> jsnth landmarks 23 = Some leftHip \<and> jsnth landmarks 24 = Some rightHip
         \<and> 0.02 \<le> bodyScale leftShoulder rightShoulder leftHip rightHip
         \<and> ((lm_y leftWrist < lm_y leftHip \<and> isVisible leftWrist
              \<and> \<bar>lm_x leftElbow - lm_x leftShoulder\<bar>
                  > 0.9 * shoulderWidth leftShoulder rightShoulder)
             \<or> (lm_y rightWrist < lm_y rightHip \<and> isVisible rightWrist
                 \<and> \<bar>lm_x rightElbow - lm_x rightShoulder\<bar>
                     > 0.9 * shoulderWidth leftShoulder rightShoulder))
         \<and> analyzePose landmarks BICEP_CURL stabilityScore = Some (Some ''Keep Torso Still''))"
proof (intro conjI notI)
  have n: "jsnth flaredElbowPose 11 = Some (lmk 0.6 0.3 0 1)"
    "jsnth flaredElbowPose 12 = Some (lmk 0.4 0.3 0 1)"
    "jsnth flaredElbowPose 13 = Some (lmk 0.85 0.45 0 1)"
    "jsnth flaredElbowPose 14 = Some (lmk 0.38 0.45 0 1)"
    "jsnth flaredElbowPose 15 = Some (lmk 0.85 0.5 0 1)"
    "jsnth flaredElbowPose 16 = Some (lmk 0.38 0.6 0 1)"
    "jsnth flaredElbowPose 23 = Some (lmk 0.56 0.6 0 1)"
    "jsnth flaredElbowPose 24 = Some (lmk 0.44 0.6 0 1)"
    by (simp_all add: flaredElbowPose_def jsnth_update standing_nth standing_length)
  have b: "0.02 \<le> bodyScale (lmk 0.6 0.3 0 1) (lmk 0.4 0.3 0 1) (lmk 0.56 0.6 0 1)
                     (lmk 0.44 0.6 0 1)"
    by (simp add: lmk_fields)
  show "analyzePose flaredElbowPose BICEP_CURL 0.01 = Some (Some ''Tuck Left Elbow'')"
    unfolding bicep_curl_cases [OF n b refl refl refl refl]
    by (simp add: lmk_fields)
next
  assume "\<exists>landmarks stabilityScore leftShoulder rightShoulder leftElbow rightElbow
           leftWrist rightWrist leftHip rightHip.
         jsnth landmarks 11 = Some leftShoulder \<and> jsnth landmarks 12 = Some rightShoulder
         \<and> jsnth landmarks 13 = Some leftElbow \<and> jsnth landmarks 14 = Some rightElbow
         \<and> jsnth landmarks 15 = Some leftWrist \<and> jsnth landmarks 16 = Some rightWrist
         \<and> jsnth landmarks 23 = Some leftHip \<and> jsnth landmarks 24 = Some rightHip
         \<and> 0.02 \<le> bodyScale leftShoulder rightShoulder leftHip rightHip
         \<and> ((lm_y leftWrist < lm_y leftHip \<and> isVisible leftWrist
              \<and> \<bar>lm_x leftElbow - lm_x leftShoulder\<bar>
                  > 0.9 * shoulderWidth leftShoulder rightShoulder)
             \<or> (lm_y rightWrist < lm_y rightHip \<and> isVisible rightWrist
                 \<and> \<bar>lm_x rightElbow - lm_x rightShoulder\<bar>
                     > 0.9 * shoulderWidth leftShoulder rightShoulder))
         \<and> analyzePose landmarks BICEP_CURL stabilityScore = Some (Some ''Keep Torso Still'')"
  then obtain landmarks stabilityScore leftShoulder rightShoulder leftElbow rightElbow
           leftWrist rightWrist leftHip rightHip
    where h: "jsnth landmarks 11 = Some leftShoulder" "jsnth landmarks 12 = Some rightShoulder"
         "jsnth landmarks 13 = Some leftElbow" "jsnth landmarks 14 = Some rightElbow"
         "jsnth landmarks 15 = Some leftWrist" "jsnth landmarks 16 = Some rightWrist"
         "jsnth landmarks 23 = Some leftHip" "jsnth landmarks 24 = Some rightHip"
         "0.02 \<le> bodyScale leftShoulder rightShoulder leftHip rightHip"
      and fired: "(lm_y leftWrist < lm_y leftHip \<and> isVisible leftWrist
              \<and> \<bar>lm_x leftElbow - lm_x leftShoulder\<bar>
                  > 0.9 * shoulderWidth leftShoulder rightShoulder)
             \<or> (lm_y rightWrist < lm_y rightHip \<and> isVisible rightWrist
                 \<and> \<bar>lm_x rightElbow - lm_x rightShoulder\<bar>
                     > 0.9 * shoulderWidth leftShoulder rightShoulder)"
      and out: "analyzePose landmarks BICEP_CURL stabilityScore = Some (Some ''Keep Torso Still'')"
    by blast
  show False
    using out fired
    unfolding bicep_curl_cases [OF h refl refl refl refl]
    by (auto split: if_splits)
qed

subsection \<open>The frame loop\<close>

lemma jsnth_Some: "i < length xs \<Longrightarrow> jsnth xs i = Some (xs ! i)"
  by (simp add: jsnth_def)

lemma jsnth_None: "length xs \<le> i \<Longrightarrow> jsnth xs i = None"
  by (simp add: jsnth_def)

lemma those_total:
  "(\<And>x. x \<in> set xs \<Longrightarrow> \<exists>y. f x = Some y) \<Longrightarrow> \<exists>ys. those (map f xs) = Some ys"
proof (induction xs)
  case Nil
  then show ?case by simp
next
  case (Cons a xs)
  then obtain y ys where "f a = Some y" "those (map f xs) = Some ys"
    by (metis list.set_intros(1) list.set_intros(2))
  then show ?case by simp
qed

lemma drawJointWeld_total:
  assumes "11 < length s" "12 < length s"
  shows "\<exists>ps. drawJointWeld s i f = Some ps"
  using assms by (simp add: drawJointWeld_def jsnth_Some split: option.splits)

lemma renderAnatomy_total:
  assumes "24 < length s"
  shows "\<exists>welds. renderAnatomy s w =
           Some ([PaintTorso (torso \<in> set (TARGET_SEGMENTS w))]
                 @ concat (map (\<lambda>(a, b, k). drawMusclePart s w a b k) musclePartCalls)
                 @ concat welds)"
proof -
  have "\<exists>welds. those (map (\<lambda>(i, f). drawJointWeld s i f) jointWeldCalls) = Some welds"
  proof (rule those_total)
    fix x :: "nat \<times> real" assume "x \<in> set jointWeldCalls"
    obtain i f where "x = (i, f)" by (cases x)
    then show "\<exists>y. (case x of (i, f) \<Rightarrow> drawJointWeld s i f) = Some y"
      using drawJointWeld_total [of s i f] assms by simp
  qed
  then obtain welds where "those (map (\<lambda>(i, f). drawJointWeld s i f) jointWeldCalls) = Some welds"
    by blast
  then show ?thesis
    using assms by (intro exI [of _ welds]) (simp add: renderAnatomy_def jsnth_Some Let_def)
qed

lemma renderAnatomy_throws:
  assumes "length s \<le> 24"
  shows "renderAnatomy s w = None"
proof -
  have "jsnth s 11 = None \<or> jsnth s 12 = None \<or> jsnth s 23 = None \<or> jsnth s 24 = None"
    using assms by (simp add: jsnth_def)
  then show ?thesis by (auto simp add: renderAnatomy_def split: Option.bind_splits)
qed

lemma trackingScore_total:
  assumes "12 < length s"
  shows "\<exists>score. trackingScore s = Some score"
  using assms by (simp add: trackingScore_def jsnth_Some Let_def)

lemma trackFrame_total:
  assumes "adaptiveSmoothLandmarks l (prevLandmarksRef st) = Some sm" and "24 < length sm"
  shows "\<exists>shapes score. trackFrame st l w = Some (shapes, score, st\<lparr>prevLandmarksRef := Some sm\<rparr>)"
proof -
  obtain shapes where "renderAnatomy sm w = Some shapes"
    using renderAnatomy_total [OF assms(2)] by blast
  moreover obtain score where "trackingScore sm = Some score"
    using trackingScore_total [of sm] assms(2) by auto
  ultimately show ?thesis using assms(1) by (simp add: trackFrame_def)
qed

lemma adaptiveSmooth_length:
  "adaptiveSmoothLandmarks l pr = Some sm \<Longrightarrow> length sm = length l"
proof (cases pr)
  case None
  assume "adaptiveSmoothLandmarks l pr = Some sm"
  then show ?thesis using None by (simp add: adaptiveSmoothLandmarks_def)
next
  case (Some prev)
  assume a: "adaptiveSmoothLandmarks l pr = Some sm"
  show ?thesis
  proof (cases "length l \<le> length prev")
    case True
    then show ?thesis using a Some adaptiveSmooth_total [OF True] by auto
  next
    case False
    then have "adaptiveSmoothLandmarks l (Some prev) = None"
      by (intro adaptiveSmooth_throws) simp
    then show ?thesis using a Some by simp
  qed
qed

lemma updateStability_hips:
  assumes "jsnth l 23 = Some l23" "jsnth l 24 = Some l24"
    and "jsnth prev 23 = Some p23" "jsnth prev 24 = Some p24"
  shows "updateStability l (Some prev) s =
           Some (s * 0.9
                 + hypot ((lm_x l23 + lm_x l24) / 2 - (lm_x p23 + lm_x p24) / 2)
                         ((lm_y l23 + lm_y l24) / 2 - (lm_y p23 + lm_y p24) / 2) * 0.1)"
  using assms by (simp add: updateStability_def Let_def)

lemma heuristicStage_stability:
  assumes "updateStability l (prevLandmarksRef st) (stabilityScoreRef st) = Some s'"
  shows "stabilityScoreRef (fst (heuristicStage st l nowH a w)) = s'"
  using assms by (simp add: heuristicStage_def Let_def split: option.splits)

lemma detectPose_stability:
  assumes "adaptiveSmoothLandmarks l (prevLandmarksRef st) = Some sm" and "24 < length sm"
    and "updateStability l (Some sm) (stabilityScoreRef st) = Some s'"
  shows "stabilityScoreRef (fst (detectPose st (l # rest) now nowH a w)) = s'"
proof -
  let ?st1 = "st\<lparr>lastValidLandmarksRef := Some l, lastLandmarksTimeRef := now\<rparr>"
  have sel: "selectLandmarks st (l # rest) now = (Some l, ?st1)"
    by (simp add: selectLandmarks_def)
  have "adaptiveSmoothLandmarks l (prevLandmarksRef ?st1) = Some sm" using assms(1) by simp
  from trackFrame_total [OF this assms(2)]
  obtain shapes score where
    tf: "trackFrame ?st1 l w = Some (shapes, score, ?st1\<lparr>prevLandmarksRef := Some sm\<rparr>)"
    by blast
  have "updateStability l (prevLandmarksRef (?st1\<lparr>prevLandmarksRef := Some sm\<rparr>))
          (stabilityScoreRef (?st1\<lparr>prevLandmarksRef := Some sm\<rparr>)) = Some s'"
    using assms(3) by simp
  from heuristicStage_stability [OF this]
  have "stabilityScoreRef (fst (heuristicStage (?st1\<lparr>prevLandmarksRef := Some sm\<rparr>) l nowH a w)) = s'" .
  then show ?thesis
    by (cases "heuristicStage (?st1\<lparr>prevLandmarksRef := Some sm\<rparr>) l nowH a w")
      (simp add: detectPose_def sel processFrame_def tf)
qed

lemma hypot_zero_right: "hypot a 0 = \<bar>a\<bar>"
  by (simp add: hypot_def)

lemma blended_shift:
  "blended gv (shiftX 0.1 p) p = shiftX 0.092 p"
proof -
  have "upperThreshold \<le> max (hypot (lm_x (shiftX 0.1 p) - lm_x p) (lm_y (shiftX 0.1 p) - lm_y p)) (gv * 0.6)"
    by (simp add: shiftX_def hypot_zero_right upperThreshold_def)
  then have "blendAlpha (max (hypot (lm_x (shiftX 0.1 p) - lm_x p) (lm_y (shiftX 0.1 p) - lm_y p)) (gv * 0.6)) = maxAlpha"
    by (rule blendAlpha_high)
  then show ?thesis
    by (simp add: blended_def shiftX_def lerp_def maxAlpha_def)
qed

lemma smooth_shifted:
  "adaptiveSmoothLandmarks (map (shiftX 0.1) ps) (Some ps) = Some (map (shiftX 0.092) ps)"
proof -
  have "map (\<lambda>i. blended (globalVelocity (map (shiftX 0.1) ps) ps) (map (shiftX 0.1) ps ! i) (ps ! i))
          [0..<length (map (shiftX 0.1) ps)]
        = map (\<lambda>i. shiftX 0.092 (ps ! i)) [0..<length ps]"
    by (simp add: blended_shift)
  also have "\<dots> = map (shiftX 0.092) ps"
    by (rule nth_equalityI) simp_all
  finally show ?thesis
    using adaptiveSmooth_total [of "map (shiftX 0.1) ps" ps] by simp
qed

lemma smooth_first: "adaptiveSmoothLandmarks l None = Some l"
  by (simp add: adaptiveSmoothLandmarks_def)

lemma detectPose_inactive_state:
  assumes "adaptiveSmoothLandmarks l (prevLandmarksRef st) = Some sm" and "24 < length sm"
    and "updateStability l (Some sm) (stabilityScoreRef st) = Some s'"
  shows "fst (detectPose st (l # rest) now nowH False w)
         = st\<lparr>lastValidLandmarksRef := Some l, lastLandmarksTimeRef := now,
               prevLandmarksRef := Some sm, stabilityScoreRef := s'\<rparr>"
proof -
  let ?st1 = "st\<lparr>lastValidLandmarksRef := Some l, lastLandmarksTimeRef := now\<rparr>"
  have sel: "selectLandmarks st (l # rest) now = (Some l, ?st1)"
    by (simp add: selectLandmarks_def)
  have "adaptiveSmoothLandmarks l (prevLandmarksRef ?st1) = Some sm" using assms(1) by simp
  from trackFrame_total [OF this assms(2)]
  obtain shapes score where
    tf: "trackFrame ?st1 l w = Some (shapes, score, ?st1\<lparr>prevLandmarksRef := Some sm\<rparr>)"
    by blast
  have "heuristicStage (?st1\<lparr>prevLandmarksRef := Some sm\<rparr>) l nowH False w
        = (?st1\<lparr>prevLandmarksRef := Some sm, stabilityScoreRef := s'\<rparr>, False, False)"
    using assms(3) by (simp add: heuristicStage_def Let_def)
  then show ?thesis
    by (simp add: detectPose_def sel processFrame_def tf)
qed

lemma detectPose_lost_state:
  assumes "now - lastLandmarksTimeRef st > 200"
  shows "detectPose st [] now nowH a w
         = (st\<lparr>prevLandmarksRef := None\<rparr>,
            \<lparr>currentQuality = LOST, currentScore = 0, painted = [], analyzerRan = False,
             caught = False\<rparr>)"
  using assms by (simp add: detectPose_def selectLandmarks_def processFrame_def)

lemma runFrames_fst:
  "fst (runFrames st (f # fs))
   = fst (runFrames (fst (detectPose st (f_results f) (f_now f) (f_nowH f) (f_isActive f)
                            (f_workoutType f))) fs)"
  by (simp split: prod.splits)

lemma jsnth_map: "jsnth (map f xs) i = map_option f (jsnth xs i)"
  by (simp add: jsnth_def)

lemma shifted_nth:
  "jsnth shiftedPose 23 = Some (shiftX 0.1 (lmk 0.56 0.6 0 1))"
  "jsnth shiftedPose 24 = Some (shiftX 0.1 (lmk 0.44 0.6 0 1))"
  "jsnth (map (shiftX 0.092) standingPose) 23 = Some (shiftX 0.092 (lmk 0.56 0.6 0 1))"
  "jsnth (map (shiftX 0.092) standingPose) 24 = Some (shiftX 0.092 (lmk 0.44 0.6 0 1))"
  by (simp_all add: shiftedPose_def jsnth_map standing_nth)

lemma hypot_zero: "hypot 0 0 = 0"
  by (simp add: hypot_def)

lemma updateStability_same:
  assumes "24 < length l"
  shows "updateStability l (Some l) s = Some (s * 0.9)"
  using assms by (simp add: updateStability_def jsnth_Some Let_def hypot_zero)

lemma after_reset_still_updates:
  assumes "prevLandmarksRef st = None" and "24 < length l"
  shows "stabilityScoreRef (fst (detectPose st (l # rest) now nowH a w)) = stabilityScoreRef st * 0.9"
proof -
  have sm: "adaptiveSmoothLandmarks l (prevLandmarksRef st) = Some l"
    using assms(1) by (simp add: smooth_first)
  show ?thesis
    by (rule detectPose_stability [OF sm assms(2) updateStability_same [OF assms(2)]])
qed

text \<open>
  A run from the initial state: the standing subject at 1000, the same subject moved by
  0.1 at 1033, no detection at 1300, the standing subject again at 1400.
\<close>

lemma run_state_1:
  "fst (runFrames initialState [detection standingPose 1000 False]) = trackedState"
proof -
  have "updateStability standingPose (Some standingPose) (stabilityScoreRef initialState) = Some 0"
    using updateStability_same [of standingPose 0]
    by (simp add: standing_length initialState_def)
  from detectPose_inactive_state [where st = initialState and sm = standingPose
      and rest = "[]" and now = 1000 and nowH = 1000 and w = SQUAT, OF _ _ this]
  have "fst (detectPose initialState [standingPose] 1000 1000 False SQUAT) = trackedState"
    by (simp add: initialState_def smooth_first standing_length trackedState_def)
  then show ?thesis by (simp add: runFrames_fst detection_def del: runFrames.simps(2))
qed

lemma run_state_2:
  "fst (runFrames initialState [detection standingPose 1000 False,
                                detection shiftedPose 1033 False])
   = trackedState\<lparr>lastValidLandmarksRef := Some shiftedPose, lastLandmarksTimeRef := 1033,
                   prevLandmarksRef := Some (map (shiftX 0.092) standingPose),
                   stabilityScoreRef := 0.0008\<rparr>"
proof -
  have sm: "adaptiveSmoothLandmarks shiftedPose (prevLandmarksRef trackedState)
            = Some (map (shiftX 0.092) standingPose)"
    by (simp add: trackedState_def shiftedPose_def smooth_shifted)
  have len: "24 < length (map (shiftX 0.092) standingPose)" by (simp add: standing_length)
  have us: "updateStability shiftedPose (Some (map (shiftX 0.092) standingPose))
              (stabilityScoreRef trackedState) = Some 0.0008"
    unfolding updateStability_hips [OF shifted_nth]
    by (simp add: trackedState_def shiftX_def lmk_def hypot_zero_right)
  have "fst (detectPose trackedState [shiftedPose] 1033 1033 False SQUAT)
        = trackedState\<lparr>lastValidLandmarksRef := Some shiftedPose, lastLandmarksTimeRef := 1033,
                   prevLandmarksRef := Some (map (shiftX 0.092) standingPose),
                   stabilityScoreRef := 0.0008\<rparr>"
    by (rule detectPose_inactive_state [OF sm len us])
  moreover have "fst (detectPose initialState [standingPose] 1000 1000 False SQUAT) = trackedState"
    using run_state_1 by (simp add: runFrames_fst detection_def del: runFrames.simps(2))
  ultimately show ?thesis
    by (simp add: runFrames_fst detection_def del: runFrames.simps(2))
qed

lemma run_state_3:
  "fst (runFrames initialState [detection standingPose 1000 False,
                                detection shiftedPose 1033 False, noDetection 1300 False])
   = trackedState\<lparr>lastValidLandmarksRef := Some shiftedPose, lastLandmarksTimeRef := 1033,
                   prevLandmarksRef := None, stabilityScoreRef := 0.0008\<rparr>"
proof -
  let ?s2 = "trackedState\<lparr>lastValidLandmarksRef := Some shiftedPose,
                   lastLandmarksTimeRef := 1033,
                   prevLandmarksRef := Some (map (shiftX 0.092) standingPose),
                   stabilityScoreRef := 0.0008\<rparr>"
  have s1: "fst (detectPose initialState [standingPose] 1000 1000 False SQUAT) = trackedState"
    using run_state_1 by (simp add: runFrames_fst detection_def del: runFrames.simps(2))
  have s2: "fst (detectPose trackedState [shiftedPose] 1033 1033 False SQUAT) = ?s2"
    using run_state_2 by (simp add: runFrames_fst detection_def s1 del: runFrames.simps(2))
  have "1300 - lastLandmarksTimeRef ?s2 > 200" by simp
  from detectPose_lost_state [OF this, of 1300 False SQUAT]
  have "fst (detectPose ?s2 [] 1300 1300 False SQUAT) = ?s2\<lparr>prevLandmarksRef := None\<rparr>"
    by simp
  then show ?thesis
    using s1 s2
    by (simp add: runFrames_fst detection_def noDetection_def del: runFrames.simps(2))
qed

lemma run_state_4:
  "stabilityScoreRef
     (fst (runFrames initialState [detection standingPose 1000 False,
             detection shiftedPose 1033 False, noDetection 1300 False,
             detection standingPose 1400 False])) = 0.00072"
proof -
  let ?s2 = "trackedState\<lparr>lastValidLandmarksRef := Some shiftedPose,
                   lastLandmarksTimeRef := 1033,
                   prevLandmarksRef := Some (map (shiftX 0.092) standingPose),
                   stabilityScoreRef := 0.0008\<rparr>"
  let ?s3 = "trackedState\<lparr>lastValidLandmarksRef := Some shiftedPose,
                   lastLandmarksTimeRef := 1033,
                   prevLandmarksRef := None, stabilityScoreRef := 0.0008\<rparr>"
  have s1: "fst (detectPose initialState [standingPose] 1000 1000 False SQUAT) = trackedState"
    using run_state_1 by (simp add: runFrames_fst detection_def del: runFrames.simps(2))
  have s2: "fst (detectPose trackedState [shiftedPose] 1033 1033 False SQUAT) = ?s2"
    using run_state_2 by (simp add: runFrames_fst detection_def s1 del: runFrames.simps(2))
  have s3: "fst (detectPose ?s2 [] 1300 1300 False SQUAT) = ?s3"
    using run_state_3
    by (simp add: runFrames_fst detection_def noDetection_def s1 s2 del: runFrames.simps(2))
  have sm: "adaptiveSmoothLandmarks standingPose (prevLandmarksRef ?s3) = Some standingPose"
    by (simp add: smooth_first)
  have len: "24 < length standingPose" by (simp add: standing_length)
  have us: "updateStability standingPose (Some standingPose) (stabilityScoreRef ?s3)
            = Some 0.00072"
    using updateStability_same [OF len, of "0.0008"] by simp
  have "stabilityScoreRef (fst (detectPose ?s3 [standingPose] 1400 1400 False SQUAT)) = 0.00072"
    by (rule detectPose_stability [OF sm len us])
  then show ?thesis
    using s1 s2 s3
    by (simp add: runFrames_fst detection_def noDetection_def del: runFrames.simps(2))
qed

lemma standing_hips:
  "standingPose ! 23 = lmk 0.56 0.6 0 1" "standingPose ! 24 = lmk 0.44 0.6 0 1"
  by (simp_all add: standingPose_def)

text \<open>
  C1. The claim: on every frame with usable landmarks and a valid previous smoothed set
  the stability score becomes \<open>stabilityScore * 0.9 + movement * 0.1\<close>, \<open>movement\<close> being
  the distance between this frame's smoothed hip midpoint and the previous frame's
  smoothed hip midpoint, and nothing changes without a previous set. The code stores
  this frame's smoothed set in \<open>prevLandmarksRef\<close> before the stability update reads it,
  so the update runs on every frame with landmarks and measures the distance between
  the raw hip midpoint and this frame's own smoothed hip midpoint
  (\<open>detectPose_stability\<close>, \<open>after_reset_still_updates\<close>). On the run above: at the second
  frame the previous smoothed set is the standing subject, the distance the claim
  names is 0.092, which would give 0.0092, and the score is 0.0008; after the loss of
  tracking no smoothed set is retained, and the fourth frame still changes the score,
  from 0.0008 to 0.00072.
\<close>

theorem stability_update_diverges:
  "prevLandmarksRef (fst (runFrames initialState [detection standingPose 1000 False]))
     = Some standingPose
   \<and> stabilityScoreRef (fst (runFrames initialState [detection standingPose 1000 False])) = 0
   \<and> adaptiveSmoothLandmarks shiftedPose (Some standingPose)
       = Some (map (shiftX 0.092) standingPose)
   \<and> hypot ((lm_x (map (shiftX 0.092) standingPose ! 23)
             + lm_x (map (shiftX 0.092) standingPose ! 24)) / 2
            - (lm_x (standingPose ! 23) + lm_x (standingPose ! 24)) / 2)
           ((lm_y (map (shiftX 0.092) standingPose ! 23)
             + lm_y (map (shiftX 0.092) standingPose ! 24)) / 2
            - (lm_y (standingPose ! 23) + lm_y (standingPose ! 24)) / 2) = 0.092
   \<and> stabilityScoreRef
        (fst (runFrames initialState [detection standingPose 1000 False,
                detection shiftedPose 1033 False])) = 0.0008
   \<and> prevLandmarksRef
        (fst (runFrames initialState [detection standingPose 1000 False,
                detection shiftedPose 1033 False, noDetection 1300 False])) = None
   \<and> stabilityScoreRef
        (fst (runFrames initialState [detection standingPose 1000 False,
                detection shiftedPose 1033 False, noDetection 1300 False])) = 0.0008
   \<and> stabilityScoreRef
        (fst (runFrames initialState [detection standingPose 1000 False,
                detection shiftedPose 1033 False, noDetection 1300 False,
                detection standingPose 1400 False])) = 0.00072"
proof -
  have h: "hypot ((lm_x (map (shiftX 0.092) standingPose ! 23)
             + lm_x (map (shiftX 0.092) standingPose ! 24)) / 2
            - (lm_x (standingPose ! 23) + lm_x (standingPose ! 24)) / 2)
           ((lm_y (map (shiftX 0.092) standingPose ! 23)
             + lm_y (map (shiftX 0.092) standingPose ! 24)) / 2
            - (lm_y (standingPose ! 23) + lm_y (standingPose ! 24)) / 2) = 0.092"
    by (simp add: standing_length standing_hips shiftX_def lmk_def hypot_zero_right)
  have sm: "adaptiveSmoothLandmarks shiftedPose (Some standingPose)
       = Some (map (shiftX 0.092) standingPose)"
    by (simp add: shiftedPose_def smooth_shifted)
  show ?thesis
    unfolding run_state_1 run_state_2 run_state_3 run_state_4
    using h sm by (simp add: trackedState_def)
qed

subsection \<open>The overlay\<close>






lemma renderAnatomy_shape:
  assumes "renderAnatomy s w = Some ps"
  shows "24 < length s
         \<and> (\<exists>welds. those (map (\<lambda>(i, f). drawJointWeld s i f) jointWeldCalls) = Some welds
              \<and> ps = [PaintTorso (torso \<in> set (TARGET_SEGMENTS w))]
                     @ concat (map (\<lambda>(a, b, k). drawMusclePart s w a b k) musclePartCalls)
                     @ concat welds)"
proof -
  have len: "24 < length s"
  proof (rule ccontr)
    assume "\<not> 24 < length s"
    then have "renderAnatomy s w = None" by (intro renderAnatomy_throws) simp
    then show False using assms by simp
  qed
  then show ?thesis
    using assms by (auto simp add: renderAnatomy_def jsnth_Some Let_def split: Option.bind_splits)
qed




subsection \<open>The rate limit of the analyzer\<close>

lemma selectLandmarks_heuristic:
  "selectLandmarks st results now = (lms, st1) \<Longrightarrow>
     heuristicFeedback st1 = heuristicFeedback st
     \<and> lastHeuristicUpdateRef st1 = lastHeuristicUpdateRef st"
  by (auto simp add: selectLandmarks_def split: list.splits)

lemma trackFrame_heuristic:
  "trackFrame st l w = Some (shapes, score, st2) \<Longrightarrow>
     heuristicFeedback st2 = heuristicFeedback st
     \<and> lastHeuristicUpdateRef st2 = lastHeuristicUpdateRef st"
  by (auto simp add: trackFrame_def split: Option.bind_splits)

lemma heuristicStage_limited:
  assumes "nowH - lastHeuristicUpdateRef st \<le> 500"
    and "heuristicStage st l nowH a w = (st3, called, threw)"
  shows "heuristicFeedback st3 = heuristicFeedback st
         \<and> lastHeuristicUpdateRef st3 = lastHeuristicUpdateRef st \<and> \<not> called"
  using assms by (auto simp add: heuristicStage_def Let_def split: option.splits)

lemma heuristicStage_stamp:
  assumes "heuristicStage st l nowH a w = (st3, True, False)"
  shows "lastHeuristicUpdateRef st3 = nowH \<and> a \<and> nowH - lastHeuristicUpdateRef st > 500"
  using assms by (auto simp add: heuristicStage_def Let_def split: option.splits if_splits)

lemma processFrame_limited:
  assumes "nowH - lastHeuristicUpdateRef st \<le> 500"
    and "processFrame st lms now nowH a w = (st', out)"
  shows "heuristicFeedback st' = heuristicFeedback st
         \<and> lastHeuristicUpdateRef st' = lastHeuristicUpdateRef st \<and> \<not> analyzerRan out"
proof (cases lms)
  case None
  then show ?thesis using assms(2) by (auto simp add: processFrame_def split: if_splits)
next
  case (Some l)
  show ?thesis
  proof (cases "trackFrame st l w")
    case None
    then show ?thesis using assms(2) Some by (auto simp add: processFrame_def)
  next
    case tf: (Some r)
    obtain shapes score st2 where r: "r = (shapes, score, st2)" by (cases r)
    obtain st3 called threw where hs: "heuristicStage st2 l nowH a w = (st3, called, threw)"
      by (cases "heuristicStage st2 l nowH a w")
    have keep: "heuristicFeedback st2 = heuristicFeedback st
                \<and> lastHeuristicUpdateRef st2 = lastHeuristicUpdateRef st"
      using trackFrame_heuristic tf r by blast
    then have "nowH - lastHeuristicUpdateRef st2 \<le> 500" using assms(1) by simp
    from heuristicStage_limited [OF this hs] keep
    show ?thesis using assms(2) Some tf r hs by (auto simp add: processFrame_def)
  qed
qed

lemma detectPose_limited:
  assumes "nowH - lastHeuristicUpdateRef st \<le> 500"
    and "detectPose st results now nowH a w = (st', out)"
  shows "heuristicFeedback st' = heuristicFeedback st
         \<and> lastHeuristicUpdateRef st' = lastHeuristicUpdateRef st \<and> \<not> analyzerRan out"
proof -
  obtain lms st1 where sel: "selectLandmarks st results now = (lms, st1)"
    by (cases "selectLandmarks st results now")
  then have keep: "heuristicFeedback st1 = heuristicFeedback st
                   \<and> lastHeuristicUpdateRef st1 = lastHeuristicUpdateRef st"
    by (rule selectLandmarks_heuristic)
  have pf: "processFrame st1 lms now nowH a w = (st', out)"
    using assms(2) sel by (simp add: detectPose_def)
  have "nowH - lastHeuristicUpdateRef st1 \<le> 500" using assms(1) keep by simp
  from processFrame_limited [OF this pf] keep show ?thesis by simp
qed

lemma detectPose_stamp:
  assumes "detectPose st results now nowH a w = (st', out)"
    and "analyzerRan out" and "\<not> caught out"
  shows "lastHeuristicUpdateRef st' = nowH"
proof -
  obtain lms st1 where sel: "selectLandmarks st results now = (lms, st1)"
    by (cases "selectLandmarks st results now")
  have pf: "processFrame st1 lms now nowH a w = (st', out)"
    using assms(1) sel by (simp add: detectPose_def)
  show ?thesis
  proof (cases lms)
    case None
    then show ?thesis using pf assms(2) by (auto simp add: processFrame_def split: if_splits)
  next
    case (Some l)
    show ?thesis
    proof (cases "trackFrame st1 l w")
      case None
      then show ?thesis using pf Some assms(2) by (auto simp add: processFrame_def)
    next
      case tf: (Some r)
      obtain shapes score st2 where r: "r = (shapes, score, st2)" by (cases r)
      obtain st3 called threw where hs: "heuristicStage st2 l nowH a w = (st3, called, threw)"
        by (cases "heuristicStage st2 l nowH a w")
      have "st' = st3 \<and> called \<and> \<not> threw"
        using pf Some tf r hs assms(2,3) by (auto simp add: processFrame_def)
      then show ?thesis using heuristicStage_stamp [of st2 l nowH a w st3] hs by simp
    qed
  qed
qed

lemma runFrames_limited:
  "\<forall>f \<in> set fs. f_nowH f - lastHeuristicUpdateRef st \<le> 500 \<Longrightarrow>
   runFrames st fs = (st', outs) \<Longrightarrow>
   heuristicFeedback st' = heuristicFeedback st
   \<and> lastHeuristicUpdateRef st' = lastHeuristicUpdateRef st
   \<and> (\<forall>out \<in> set outs. \<not> analyzerRan out)"
proof (induction fs arbitrary: st st' outs)
  case Nil
  then show ?case by simp
next
  case (Cons f fs)
  obtain st1 out where d: "detectPose st (f_results f) (f_now f) (f_nowH f) (f_isActive f)
                             (f_workoutType f) = (st1, out)"
    by (cases "detectPose st (f_results f) (f_now f) (f_nowH f) (f_isActive f) (f_workoutType f)")
  obtain st2 outs2 where r: "runFrames st1 fs = (st2, outs2)"
    by (cases "runFrames st1 fs")
  have eq: "st' = st2" "outs = out # outs2" using Cons.prems(2) d r by simp_all
  have "f_nowH f - lastHeuristicUpdateRef st \<le> 500" using Cons.prems(1) by simp
  from detectPose_limited [OF this d]
  have k1: "heuristicFeedback st1 = heuristicFeedback st"
    "lastHeuristicUpdateRef st1 = lastHeuristicUpdateRef st" "\<not> analyzerRan out"
    by simp_all
  have "\<forall>f \<in> set fs. f_nowH f - lastHeuristicUpdateRef st1 \<le> 500"
    using Cons.prems(1) k1(2) by simp
  from Cons.IH [OF this r] k1 eq show ?case by simp
qed

text \<open>
  C8. After a frame whose call of the analyzer completed at clock reading \<open>nowH\<close>, no
  frame with a clock reading up to \<open>nowH + 500\<close> calls the analyzer again, however many
  such frames arrive, and the stored cue stays as that evaluation left it.
\<close>

theorem heuristic_rate_limit:
  assumes "detectPose st0 results now nowH isActive workoutType = (st, out0)"
    and "analyzerRan out0" and "\<not> caught out0"
    and "\<forall>f \<in> set fs. f_nowH f - nowH \<le> 500"
    and "runFrames st fs = (st', outs)"
  shows "heuristicFeedback st' = heuristicFeedback st
         \<and> (\<forall>out \<in> set outs. \<not> analyzerRan out)"
proof -
  have "lastHeuristicUpdateRef st = nowH" using assms(1-3) by (rule detectPose_stamp)
  then have "\<forall>f \<in> set fs. f_nowH f - lastHeuristicUpdateRef st \<le> 500" using assms(4) by simp
  from runFrames_limited [OF this assms(5)] show ?thesis by simp
qed

lemma analyzePose_total:
  assumes "29 < length l"
  shows "\<exists>cue. analyzePose l w s = Some cue"
proof -
  have n: "\<And>i. i < 30 \<Longrightarrow> jsnth l i = Some (l ! i)" using assms by (simp add: jsnth_def)
  show ?thesis
  proof (cases w)
    case SQUAT
    then show ?thesis by (simp add: analyzePose_def squatRules_def n Let_def)
  next
    case PUSHUP
    then show ?thesis by (simp add: analyzePose_def pushupRules_def n Let_def)
  next
    case PLANK
    then show ?thesis by (simp add: analyzePose_def plankRules_def n Let_def)
  next
    case LUNGE
    then show ?thesis by (simp add: analyzePose_def lungeRules_def n Let_def)
  next
    case BICEP_CURL
    then show ?thesis
      by (simp add: analyzePose_def bicepCurlRules_def leftArmBlock_def rightArmBlock_def n
          Let_def)
  next
    case TRICEP_EXTENSION
    then show ?thesis by (simp add: analyzePose_def tricepRules_def n Let_def)
  qed
qed

lemma detectPose_full_frame:
  assumes "adaptiveSmoothLandmarks l (prevLandmarksRef st) = Some sm" and "29 < length l"
  shows "analyzerRan (snd (detectPose st (l # rest) now nowH a w))
           = (a \<and> nowH - lastHeuristicUpdateRef st > 500)
         \<and> \<not> caught (snd (detectPose st (l # rest) now nowH a w))"
proof -
  let ?st1 = "st\<lparr>lastValidLandmarksRef := Some l, lastLandmarksTimeRef := now\<rparr>"
  let ?st2 = "?st1\<lparr>prevLandmarksRef := Some sm\<rparr>"
  have len: "length sm = length l" using assms(1) by (rule adaptiveSmooth_length)
  have sel: "selectLandmarks st (l # rest) now = (Some l, ?st1)"
    by (simp add: selectLandmarks_def)
  have "adaptiveSmoothLandmarks l (prevLandmarksRef ?st1) = Some sm" using assms(1) by simp
  moreover have "24 < length sm" using len assms(2) by simp
  ultimately obtain shapes score where
    tf: "trackFrame ?st1 l w = Some (shapes, score, ?st2)"
    using trackFrame_total by blast
  obtain s' where us: "updateStability l (prevLandmarksRef ?st2) (stabilityScoreRef ?st2) = Some s'"
    using assms(2) len by (simp add: updateStability_def jsnth_Some Let_def)
  obtain cue where an: "analyzePose l w s' = Some cue"
    using analyzePose_total [OF assms(2)] by blast
  have "heuristicStage ?st2 l nowH a w
        = (if a \<and> nowH - lastHeuristicUpdateRef st > 500
           then (?st2\<lparr>stabilityScoreRef := s', heuristicFeedback := cue,
                       lastHeuristicUpdateRef := nowH\<rparr>, True, False)
           else (?st2\<lparr>stabilityScoreRef := s'\<rparr>, False, False))"
    using us an by (simp add: heuristicStage_def Let_def)
  then show ?thesis
    by (simp add: detectPose_def sel processFrame_def tf)
qed

theorem heuristic_rate_limit_witness:
  "analyzerRan (snd (detectPose initialState [standingPose] 1000 1000 True SQUAT))
   \<and> \<not> caught (snd (detectPose initialState [standingPose] 1000 1000 True SQUAT))
   \<and> heuristicFeedback
        (fst (runFrames (fst (detectPose initialState [standingPose] 1000 1000 True SQUAT))
                [detection standingPose 1016 True, detection shiftedPose 1500 True]))
      = heuristicFeedback (fst (detectPose initialState [standingPose] 1000 1000 True SQUAT))
   \<and> \<not> (\<exists>out \<in> set (snd (runFrames
                (fst (detectPose initialState [standingPose] 1000 1000 True SQUAT))
                [detection standingPose 1016 True, detection shiftedPose 1500 True])).
          analyzerRan out)"
proof -
  let ?r0 = "detectPose initialState [standingPose] 1000 1000 True SQUAT"
  let ?fs = "[detection standingPose 1016 True, detection shiftedPose 1500 True]"
  have sm: "adaptiveSmoothLandmarks standingPose (prevLandmarksRef initialState) = Some standingPose"
    by (simp add: initialState_def smooth_first)
  have ran: "analyzerRan (snd ?r0)" and ok: "\<not> caught (snd ?r0)"
    using detectPose_full_frame [OF sm, of "[]" 1000 1000 True SQUAT]
    by (simp_all add: standing_length initialState_def)
  have d: "?r0 = (fst ?r0, snd ?r0)" by simp
  have t: "\<forall>f \<in> set ?fs. f_nowH f - 1000 \<le> 500" by (simp add: detection_def)
  have r: "runFrames (fst ?r0) ?fs = (fst (runFrames (fst ?r0) ?fs), snd (runFrames (fst ?r0) ?fs))"
    by simp
  from heuristic_rate_limit [OF d ran ok t r] ran ok show ?thesis by blast
qed

subsection \<open>Tracking loss and the grace window\<close>

lemma processFrame_full:
  assumes sm: "adaptiveSmoothLandmarks l (prevLandmarksRef st) = Some sm" and len: "29 < length l"
  shows "\<exists>shapes score s' cue.
           renderAnatomy sm w = Some shapes \<and> trackingScore sm = Some score
           \<and> updateStability l (Some sm) (stabilityScoreRef st) = Some s'
           \<and> analyzePose l w s' = Some cue
           \<and> processFrame st (Some l) now nowH a w
               = (if a \<and> nowH - lastHeuristicUpdateRef st > 500
                  then (st\<lparr>prevLandmarksRef := Some sm, stabilityScoreRef := s',
                           heuristicFeedback := cue, lastHeuristicUpdateRef := nowH\<rparr>,
                        \<lparr>currentQuality = classify score, currentScore = score,
                         painted = shapes, analyzerRan = True, caught = False\<rparr>)
                  else (st\<lparr>prevLandmarksRef := Some sm, stabilityScoreRef := s'\<rparr>,
                        \<lparr>currentQuality = classify score, currentScore = score,
                         painted = shapes, analyzerRan = False, caught = False\<rparr>))"
proof -
  have l: "length sm = length l" using sm by (rule adaptiveSmooth_length)
  then have l24: "24 < length sm" using len by simp
  obtain shapes where r: "renderAnatomy sm w = Some shapes"
    using renderAnatomy_total [OF l24] by blast
  obtain score where t: "trackingScore sm = Some score"
    using trackingScore_total [of sm] l24 by auto
  have tf: "trackFrame st l w = Some (shapes, score, st\<lparr>prevLandmarksRef := Some sm\<rparr>)"
    using sm r t by (simp add: trackFrame_def)
  obtain s' where us: "updateStability l (Some sm) (stabilityScoreRef st) = Some s'"
    using len l by (simp add: updateStability_def jsnth_Some Let_def)
  obtain cue where an: "analyzePose l w s' = Some cue"
    using analyzePose_total [OF len] by blast
  have "processFrame st (Some l) now nowH a w
               = (if a \<and> nowH - lastHeuristicUpdateRef st > 500
                  then (st\<lparr>prevLandmarksRef := Some sm, stabilityScoreRef := s',
                           heuristicFeedback := cue, lastHeuristicUpdateRef := nowH\<rparr>,
                        \<lparr>currentQuality = classify score, currentScore = score,
                         painted = shapes, analyzerRan = True, caught = False\<rparr>)
                  else (st\<lparr>prevLandmarksRef := Some sm, stabilityScoreRef := s'\<rparr>,
                        \<lparr>currentQuality = classify score, currentScore = score,
                         painted = shapes, analyzerRan = False, caught = False\<rparr>))"
    using us an by (simp add: processFrame_def tf heuristicStage_def Let_def)
  then show ?thesis using r t us an by blast
qed

lemma detection_state:
  assumes "29 < length known"
    and "\<forall>p. prevLandmarksRef st0 = Some p \<longrightarrow> length known \<le> length p"
    and "st1 = fst (detectPose st0 (known # rest) t0 tH0 a0 w0)"
  shows "lastValidLandmarksRef st1 = Some known \<and> lastLandmarksTimeRef st1 = t0
         \<and> (\<exists>sm1. prevLandmarksRef st1 = Some sm1 \<and> length sm1 = length known)"
proof -
  let ?s = "st0\<lparr>lastValidLandmarksRef := Some known, lastLandmarksTimeRef := t0\<rparr>"
  have sel: "selectLandmarks st0 (known # rest) t0 = (Some known, ?s)"
    by (simp add: selectLandmarks_def)
  obtain sm1 where sm1: "adaptiveSmoothLandmarks known (prevLandmarksRef ?s) = Some sm1"
  proof (cases "prevLandmarksRef st0")
    case None
    then show ?thesis using that by (simp add: smooth_first)
  next
    case (Some p)
    then have "length known \<le> length p" using assms(2) by simp
    from adaptiveSmooth_total [OF this] Some show ?thesis using that by simp
  qed
  have len1: "length sm1 = length known" using sm1 by (rule adaptiveSmooth_length)
  from processFrame_full [OF sm1 assms(1), of w0 t0 tH0 a0]
  obtain st' out where pf: "processFrame ?s (Some known) t0 tH0 a0 w0 = (st', out)"
    and st': "prevLandmarksRef st' = Some sm1" "lastValidLandmarksRef st' = Some known"
      "lastLandmarksTimeRef st' = t0"
    by (auto split: if_splits)
  have "st1 = st'" using assms(3) sel pf by (simp add: detectPose_def)
  then show ?thesis using st' len1 by simp
qed

text \<open>
  C5 (amended). Take a frame that detected a landmark set at time \<open>t0\<close>, and after it a
  frame without raw landmarks at time \<open>now\<close>.

  \<^item> More than 200 ms later the frame ends with quality LOST, score 0, nothing painted,
    and the retained smoothed set cleared.
  \<^item> Less than 200 ms later the frame takes that very set, unchanged, as its landmarks:
    the smoother blends it with the retained set, the overlay paints the result, the
    tracking score and the quality come from it, the stability update and the analyzer
    read it, the \<open>catch\<close> block is not entered, and the set and its time stay recorded.
  \<^item> At exactly 200 ms the set is not reused: the frame has no landmarks, quality LOST,
    score 0, nothing painted.
\<close>

theorem tracking_loss_and_grace:
  assumes "29 < length known"
    and "\<forall>p. prevLandmarksRef st0 = Some p \<longrightarrow> length known \<le> length p"
    and "st1 = fst (detectPose st0 (known # rest) t0 tH0 a0 w0)"
    and "detectPose st1 [] now nowH isActive workoutType = (st2, out)"
  shows "(now - t0 > 200 \<longrightarrow>
            currentQuality out = LOST \<and> currentScore out = 0 \<and> painted out = []
            \<and> prevLandmarksRef st2 = None)
       \<and> (now - t0 = 200 \<longrightarrow>
            fst (selectLandmarks st1 [] now) = None
            \<and> currentQuality out = LOST \<and> currentScore out = 0 \<and> painted out = [])
       \<and> (now - t0 < 200 \<longrightarrow>
            selectLandmarks st1 [] now = (Some known, st1)
            \<and> (\<exists>sm shapes score s' cue.
                  adaptiveSmoothLandmarks known (prevLandmarksRef st1) = Some sm
                  \<and> renderAnatomy sm workoutType = Some shapes
                  \<and> trackingScore sm = Some score
                  \<and> updateStability known (Some sm) (stabilityScoreRef st1) = Some s'
                  \<and> analyzePose known workoutType s' = Some cue
                  \<and> painted out = shapes
                  \<and> PaintTorso (torso \<in> set (TARGET_SEGMENTS workoutType)) \<in> set (painted out)
                  \<and> currentScore out = score \<and> currentQuality out = classify score
                  \<and> \<not> caught out
                  \<and> prevLandmarksRef st2 = Some sm \<and> stabilityScoreRef st2 = s'
                  \<and> lastValidLandmarksRef st2 = Some known \<and> lastLandmarksTimeRef st2 = t0
                  \<and> analyzerRan out = (isActive \<and> nowH - lastHeuristicUpdateRef st1 > 500)
                  \<and> (analyzerRan out \<longrightarrow> heuristicFeedback st2 = cue)))"
proof -
  from detection_state [OF assms(1-3)]
  obtain sm1 where lv: "lastValidLandmarksRef st1 = Some known"
    and lt: "lastLandmarksTimeRef st1 = t0"
    and pv: "prevLandmarksRef st1 = Some sm1" and l1: "length sm1 = length known"
    by blast
  have A: "now - t0 > 200 \<longrightarrow>
            currentQuality out = LOST \<and> currentScore out = 0 \<and> painted out = []
            \<and> prevLandmarksRef st2 = None"
    using assms(4) lt detectPose_lost_state [of now st1 nowH isActive workoutType] by auto
  have B: "now - t0 = 200 \<longrightarrow>
            fst (selectLandmarks st1 [] now) = None
            \<and> currentQuality out = LOST \<and> currentScore out = 0 \<and> painted out = []"
    using assms(4) lt
    by (auto simp add: detectPose_def selectLandmarks_def processFrame_def)
  have C: "now - t0 < 200 \<longrightarrow>
            selectLandmarks st1 [] now = (Some known, st1)
            \<and> (\<exists>sm shapes score s' cue.
                  adaptiveSmoothLandmarks known (prevLandmarksRef st1) = Some sm
                  \<and> renderAnatomy sm workoutType = Some shapes
                  \<and> trackingScore sm = Some score
                  \<and> updateStability known (Some sm) (stabilityScoreRef st1) = Some s'
                  \<and> analyzePose known workoutType s' = Some cue
                  \<and> painted out = shapes
                  \<and> PaintTorso (torso \<in> set (TARGET_SEGMENTS workoutType)) \<in> set (painted out)
                  \<and> currentScore out = score \<and> currentQuality out = classify score
                  \<and> \<not> caught out
                  \<and> prevLandmarksRef st2 = Some sm \<and> stabilityScoreRef st2 = s'
                  \<and> lastValidLandmarksRef st2 = Some known \<and> lastLandmarksTimeRef st2 = t0
                  \<and> analyzerRan out = (isActive \<and> nowH - lastHeuristicUpdateRef st1 > 500)
                  \<and> (analyzerRan out \<longrightarrow> heuristicFeedback st2 = cue))"
  proof
    assume g: "now - t0 < 200"
    have sel: "selectLandmarks st1 [] now = (Some known, st1)"
      using g lv lt by (simp add: selectLandmarks_def)
    have "length known \<le> length sm1" using l1 by simp
    from adaptiveSmooth_total [OF this] pv
    obtain sm where sm: "adaptiveSmoothLandmarks known (prevLandmarksRef st1) = Some sm"
      by simp
    from processFrame_full [OF sm assms(1), of workoutType now nowH isActive]
    obtain shapes score s' cue where
      r: "renderAnatomy sm workoutType = Some shapes" and t: "trackingScore sm = Some score"
      and us: "updateStability known (Some sm) (stabilityScoreRef st1) = Some s'"
      and an: "analyzePose known workoutType s' = Some cue"
      and pf: "processFrame st1 (Some known) now nowH isActive workoutType
               = (if isActive \<and> nowH - lastHeuristicUpdateRef st1 > 500
                  then (st1\<lparr>prevLandmarksRef := Some sm, stabilityScoreRef := s',
                           heuristicFeedback := cue, lastHeuristicUpdateRef := nowH\<rparr>,
                        \<lparr>currentQuality = classify score, currentScore = score,
                         painted = shapes, analyzerRan = True, caught = False\<rparr>)
                  else (st1\<lparr>prevLandmarksRef := Some sm, stabilityScoreRef := s'\<rparr>,
                        \<lparr>currentQuality = classify score, currentScore = score,
                         painted = shapes, analyzerRan = False, caught = False\<rparr>))"
      by blast
    have tor: "PaintTorso (torso \<in> set (TARGET_SEGMENTS workoutType)) \<in> set shapes"
      using renderAnatomy_shape [OF r] by auto
    have d: "(st2, out) = processFrame st1 (Some known) now nowH isActive workoutType"
      using assms(4) sel by (simp add: detectPose_def)
    have "painted out = shapes
                  \<and> PaintTorso (torso \<in> set (TARGET_SEGMENTS workoutType)) \<in> set (painted out)
                  \<and> currentScore out = score \<and> currentQuality out = classify score
                  \<and> \<not> caught out
                  \<and> prevLandmarksRef st2 = Some sm \<and> stabilityScoreRef st2 = s'
                  \<and> lastValidLandmarksRef st2 = Some known \<and> lastLandmarksTimeRef st2 = t0
                  \<and> analyzerRan out = (isActive \<and> nowH - lastHeuristicUpdateRef st1 > 500)
                  \<and> (analyzerRan out \<longrightarrow> heuristicFeedback st2 = cue)"
      using d pf tor lv lt by (auto split: if_splits)
    then show "selectLandmarks st1 [] now = (Some known, st1)
            \<and> (\<exists>sm shapes score s' cue.
                  adaptiveSmoothLandmarks known (prevLandmarksRef st1) = Some sm
                  \<and> renderAnatomy sm workoutType = Some shapes
                  \<and> trackingScore sm = Some score
                  \<and> updateStability known (Some sm) (stabilityScoreRef st1) = Some s'
                  \<and> analyzePose known workoutType s' = Some cue
                  \<and> painted out = shapes
                  \<and> PaintTorso (torso \<in> set (TARGET_SEGMENTS workoutType)) \<in> set (painted out)
                  \<and> currentScore out = score \<and> currentQuality out = classify score
                  \<and> \<not> caught out
                  \<and> prevLandmarksRef st2 = Some sm \<and> stabilityScoreRef st2 = s'
                  \<and> lastValidLandmarksRef st2 = Some known \<and> lastLandmarksTimeRef st2 = t0
                  \<and> analyzerRan out = (isActive \<and> nowH - lastHeuristicUpdateRef st1 > 500)
                  \<and> (analyzerRan out \<longrightarrow> heuristicFeedback st2 = cue))"
      using sel sm r t us an by blast
  qed
  show ?thesis using A B C by blast
qed

theorem tracking_loss_and_grace_witness:
  "currentQuality (snd (detectPose (fst (detectPose initialState [standingPose] 1000 1000 False SQUAT))
                         [] 1250 1250 True SQUAT)) = LOST
   \<and> prevLandmarksRef (fst (detectPose (fst (detectPose initialState [standingPose] 1000 1000 False SQUAT))
                         [] 1250 1250 True SQUAT)) = None
   \<and> painted (snd (detectPose (fst (detectPose initialState [standingPose] 1000 1000 False SQUAT))
                         [] 1200 1200 True SQUAT)) = []
   \<and> PaintTorso True
       \<in> set (painted (snd (detectPose (fst (detectPose initialState [standingPose] 1000 1000 False SQUAT))
                         [] 1150 1150 True SQUAT)))
   \<and> \<not> caught (snd (detectPose (fst (detectPose initialState [standingPose] 1000 1000 False SQUAT))
                         [] 1150 1150 True SQUAT))
   \<and> lastValidLandmarksRef (fst (detectPose (fst (detectPose initialState [standingPose] 1000 1000 False SQUAT))
                         [] 1150 1150 True SQUAT)) = Some standingPose"
proof -
  let ?s1 = "fst (detectPose initialState [standingPose] 1000 1000 False SQUAT)"
  have len: "29 < length standingPose" by (simp add: standing_length)
  have pv: "\<forall>p. prevLandmarksRef initialState = Some p \<longrightarrow> length standingPose \<le> length p"
    by (simp add: initialState_def)
  have d: "\<And>t. detectPose ?s1 [] t t True SQUAT
            = (fst (detectPose ?s1 [] t t True SQUAT), snd (detectPose ?s1 [] t t True SQUAT))"
    by simp
  note T = tracking_loss_and_grace [OF len pv refl d]
  have g: "(1250::int) - 1000 > 200" "(1200::int) - 1000 = 200" "(1150::int) - 1000 < 200"
    by simp_all
  have A: "currentQuality (snd (detectPose ?s1 [] 1250 1250 True SQUAT)) = LOST
           \<and> prevLandmarksRef (fst (detectPose ?s1 [] 1250 1250 True SQUAT)) = None"
    using T [of 1250] g(1) by blast
  have B: "painted (snd (detectPose ?s1 [] 1200 1200 True SQUAT)) = []"
    using T [of 1200] g(2) by blast
  have C: "PaintTorso (torso \<in> set (TARGET_SEGMENTS SQUAT))
             \<in> set (painted (snd (detectPose ?s1 [] 1150 1150 True SQUAT)))
           \<and> \<not> caught (snd (detectPose ?s1 [] 1150 1150 True SQUAT))
           \<and> lastValidLandmarksRef (fst (detectPose ?s1 [] 1150 1150 True SQUAT))
               = Some standingPose"
    using T [of 1150] g(3) by blast
  show ?thesis using A B C by simp
qed

text \<open>
  The claim as stated fails at a gap of exactly 200 ms, which is not more than 200 ms:
  after the detection of the standing subject at 1000, the frame without landmarks at
  1200 does not reuse the set; it has no landmarks, paints nothing and leaves the state
  as it was.
\<close>

theorem grace_window_counterexample:
  "lastValidLandmarksRef (fst (runFrames initialState [detection standingPose 1000 False]))
     = Some standingPose
   \<and> lastLandmarksTimeRef (fst (runFrames initialState [detection standingPose 1000 False]))
     = 1000
   \<and> fst (selectLandmarks (fst (runFrames initialState [detection standingPose 1000 False]))
            [] 1200) = None
   \<and> detectPose (fst (runFrames initialState [detection standingPose 1000 False]))
        [] 1200 1200 True SQUAT
      = (fst (runFrames initialState [detection standingPose 1000 False]),
         \<lparr>currentQuality = LOST, currentScore = 0, painted = [], analyzerRan = False,
          caught = False\<rparr>)"
  unfolding run_state_1
  by (simp add: trackedState_def detectPose_def selectLandmarks_def processFrame_def)

end
